theory Spec2Isabelle
  imports Main "HOL-Library.Word"
begin

unbundle bit_operations_syntax

section \<open>MikroTik RouterBoot hard config: the WLAN calibration unpacker\<close>

text \<open>
  Shallow embedding of \<^verbatim>\<open>rb_hardconfig.c\<close>. Buffers are byte lists whose length is the
  size of the allocation; a pointer into a buffer is the buffer together with a byte
  offset. An access outside the allocation, or through a NULL pointer, is undefined in C
  and is the value \<open>Fault\<close> here. Calls that leave the file, and every load, copy and
  call that touches a buffer, are recorded in order in a trace, so that statements of
  the form "before any access" or "without invoking" can be made about the code.
\<close>

subsection \<open>Machine types\<close>

text \<open>
  The model is for a kernel with a 32-bit \<^verbatim>\<open>size_t\<close>, as on the MIPS and 32-bit ARM
  RouterBOARDs. \<^verbatim>\<open>loff_t\<close> is a signed 64-bit value (a \<open>64 word\<close> read with \<open>sint\<close>).
  \<^verbatim>\<open>int\<close> and \<^verbatim>\<open>ssize_t\<close> return codes are kept as \<open>int\<close>: no arithmetic is done on
  them, and the one conversion from \<^verbatim>\<open>size_t\<close> to \<^verbatim>\<open>ssize_t\<close> is written out.
\<close>

type_synonym u8 = "8 word"
type_synonym u16 = "16 word"
type_synonym u32 = "32 word"
type_synonym size_t = "32 word"
type_synonym loff_t = "64 word"

subsection \<open>Constants of the kernel headers\<close>

definition ENOENT :: int where "ENOENT = 2"
definition EIO :: int where "EIO = 5"
definition ENOMEM :: int where "ENOMEM = 12"
definition EINVAL :: int where "EINVAL = 22"
definition EFBIG :: int where "EFBIG = 27"
definition ENODATA :: int where "ENODATA = 61"
definition LZO_E_INPUT_NOT_CONSUMED :: int where "LZO_E_INPUT_NOT_CONSUMED = - 8"

definition RB_ID_WLAN_DATA :: u16 where "RB_ID_WLAN_DATA = 0x16"

subsection \<open>What the file takes from outside\<close>

text \<open>
  The constants of \<^verbatim>\<open>routerboot.h\<close> (\<^verbatim>\<open>RB_MAGIC_ERD\<close>, \<^verbatim>\<open>RB_MAGIC_LZOR\<close>,
  \<^verbatim>\<open>RB_MAGIC_HARD\<close>, \<^verbatim>\<open>RB_ART_SIZE\<close>) are defined outside this file and are parameters
  here, and so are the three routines the unpacker calls: the tag scanner and the
  run-length decoder of \<^verbatim>\<open>routerboot.c\<close>, and the LZO1X decompressor of the kernel
  library. A source pointer is passed to them as
  the underlying buffer and the offset into it, followed by the length; the two decoders
  also get the destination buffer and the value of \<^verbatim>\<open>*outlen\<close>, and give back the return
  code, the destination buffer and the new \<^verbatim>\<open>*outlen\<close>. The tag scanner gives back the
  return code and the two values it stores through \<^verbatim>\<open>pld_ofs\<close> and \<^verbatim>\<open>pld_len\<close>.
  \<open>big_endian\<close> is the byte order of the CPU (\<^verbatim>\<open>*(u32 * )p\<close> is a native load).
\<close>

text \<open>
  The \<^verbatim>\<open>tshow\<close> member of an attribute points to one of four routines that print a
  payload with \<^verbatim>\<open>sprintf\<close>, two of \<^verbatim>\<open>routerboot.c\<close> and two of this file. No property
  below depends on what they print: \<open>call_tshow\<close> stands for calling one of them on the
  payload at an offset of the blob, and gives its return value and its output.
\<close>

datatype renderer =
    Routerboot_tag_show_u32s
  | Routerboot_tag_show_string
  | Hc_tag_show_mac
  | Hc_tag_show_hwoptions

record env =
  RB_MAGIC_HARD :: u32
  RB_MAGIC_LZOR :: u32
  RB_MAGIC_ERD :: u32
  RB_ART_SIZE :: size_t
  big_endian :: bool
  routerboot_tag_find :: "u8 list \<Rightarrow> nat \<Rightarrow> size_t \<Rightarrow> u16 \<Rightarrow> int \<times> u16 \<times> u16"
  routerboot_rle_decode :: "u8 list \<Rightarrow> nat \<Rightarrow> size_t \<Rightarrow> u8 list \<Rightarrow> size_t \<Rightarrow> int \<times> u8 list \<times> size_t"
  lzo1x_decompress_safe :: "u8 list \<Rightarrow> nat \<Rightarrow> size_t \<Rightarrow> u8 list \<Rightarrow> size_t \<Rightarrow> int \<times> u8 list \<times> size_t"
  call_tshow :: "renderer \<Rightarrow> u8 list \<Rightarrow> nat \<Rightarrow> u16 \<Rightarrow> int \<times> string"

subsection \<open>Traces and results\<close>

datatype buf_id = HC_BUF | OUTBUF | TEMPBUF | LZOR_PREFIX | USER_BUF

datatype event =
    Load32 buf_id nat
  | Memcpy buf_id nat buf_id nat nat
  | TagFind buf_id nat size_t u16
  | LzoDecompress buf_id nat size_t buf_id
  | RleDecode buf_id nat size_t buf_id
  | Tshow nat u16

text \<open>
  \<open>Load32 b p\<close>: the four bytes \<open>p .. p+3\<close> of buffer \<open>b\<close> are loaded.
  \<open>Memcpy d i s j n\<close>: \<open>n\<close> bytes are copied from offset \<open>j\<close> of \<open>s\<close> to offset \<open>i\<close> of \<open>d\<close>.
  \<open>TagFind b p n id\<close>, \<open>LzoDecompress b p n d\<close>, \<open>RleDecode b p n d\<close>: the routine is
  called on the \<open>n\<close> bytes of \<open>b\<close> that start at offset \<open>p\<close> (writing to \<open>d\<close>).
  \<open>Tshow p n\<close>: an attribute renderer is called on \<open>n\<close> bytes at offset \<open>p\<close> of the blob.
\<close>

datatype rc = Ret int | Fault

record unpack_result =
  r_ret :: rc
  r_outbuf :: "u8 list"
  r_outlen :: size_t
  r_trace :: "event list"

subsection \<open>The LZOR dictionary prefix\<close>

definition hc_lzor_prefix :: "u8 list" where
  "hc_lzor_prefix = [
    0x00, 0x05, 0x4c, 0x4c, 0x44, 0x00, 0x34, 0xfe,
    0xfe, 0x34, 0x11, 0x3c, 0x1e, 0x3c, 0x2e, 0x3c,
    0x4c, 0x34, 0x00, 0x52, 0x62, 0x92, 0xa2, 0xb2,
    0xc3, 0x2a, 0x14, 0x00, 0x00, 0x05, 0xfe, 0x6a,
    0x3c, 0x16, 0x32, 0x16, 0x11, 0x1e, 0x12, 0x46,
    0x32, 0x46, 0x11, 0x4e, 0x12, 0x36, 0x32, 0x36,
    0x11, 0x3e, 0x12, 0x5a, 0x9a, 0x64, 0x00, 0x04,
    0xfe, 0x10, 0x3c, 0x00, 0x01, 0x00, 0x00, 0x28,
    0x0c, 0x00, 0x0f, 0xfe, 0x14, 0x00, 0x24, 0x24,
    0x23, 0x24, 0x24, 0x23, 0x25, 0x22, 0x21, 0x21,
    0x23, 0x22, 0x21, 0x22, 0x21, 0x2d, 0x38, 0x00,
    0x0c, 0x25, 0x25, 0x24, 0x25, 0x25, 0x24, 0x23,
    0x22, 0x21, 0x20, 0x23, 0x21, 0x21, 0x22, 0x21,
    0x2d, 0x38, 0x00, 0x28, 0xb0, 0x00, 0x00, 0x22,
    0x00, 0x00, 0xc0, 0xfe, 0x03, 0x00, 0xc0, 0x00,
    0x62, 0xff, 0x62, 0xff, 0xfe, 0x06, 0x00, 0xbb,
    0xff, 0xba, 0xff, 0xfe, 0x08, 0x00, 0x9e, 0xff,
    0xfe, 0x0a, 0x00, 0x53, 0xff, 0xfe, 0x02, 0x00,
    0x20, 0xff, 0xb1, 0xfe, 0xfe, 0xb2, 0xfe, 0xfe,
    0xed, 0xfe, 0xfe, 0xfe, 0x04, 0x00, 0x3a, 0xff,
    0x3a, 0xff, 0xde, 0xfd, 0x5f, 0x04, 0x33, 0xff,
    0x4c, 0x74, 0x03, 0x05, 0x05, 0xff, 0x6d, 0xfe,
    0xfe, 0x6d, 0xfe, 0xfe, 0xaf, 0x08, 0x63, 0xff,
    0x64, 0x6f, 0x08, 0xac, 0xff, 0xbf, 0x6d, 0x08,
    0x7a, 0x6d, 0x08, 0x96, 0x74, 0x04, 0x00, 0x08,
    0x79, 0xff, 0xda, 0xfe, 0xfe, 0xdb, 0xfe, 0xfe,
    0x56, 0xff, 0xfe, 0x04, 0x00, 0x5e, 0xff, 0x5e,
    0xff, 0x6c, 0xfe, 0xfe, 0xfe, 0x06, 0x00, 0x41,
    0xff, 0x7f, 0x74, 0x03, 0x00, 0x11, 0x44, 0xff,
    0xa9, 0xfe, 0xfe, 0xa9, 0xfe, 0xfe, 0xa5, 0x8f,
    0x01, 0x00, 0x08, 0x01, 0x01, 0x02, 0x04, 0x08,
    0x02, 0x04, 0x08, 0x08, 0x01, 0x01, 0xfe, 0x22,
    0x00, 0x4c, 0x60, 0x64, 0x8c, 0x90, 0xd0, 0xd4,
    0xd8, 0x5c, 0x10, 0x09, 0xd8, 0xff, 0xb0, 0xff,
    0x00, 0x00, 0xba, 0xff, 0x14, 0x00, 0xba, 0xff,
    0x64, 0x00, 0x00, 0x08, 0xfe, 0x06, 0x00, 0x74,
    0xff, 0x42, 0xff, 0xce, 0xff, 0x60, 0xff, 0x0a,
    0x00, 0xb4, 0x00, 0xa0, 0x00, 0xa0, 0xfe, 0x07,
    0x00, 0x0a, 0x00, 0xb0, 0xff, 0x96, 0x4d, 0x00,
    0x56, 0x57, 0x18, 0xa6, 0xff, 0x92, 0x70, 0x11,
    0x00, 0x12, 0x90, 0x90, 0x76, 0x5a, 0x54, 0x54,
    0x4c, 0x46, 0x38, 0x00, 0x10, 0x10, 0x08, 0xfe,
    0x05, 0x00, 0x38, 0x29, 0x25, 0x23, 0x22, 0x22,
    0x1f, 0x00, 0x00, 0x00, 0xf6, 0xe1, 0xdd, 0xf8,
    0xfe, 0x00, 0xfe, 0x15, 0x00, 0x00, 0xd0, 0x02,
    0x74, 0x02, 0x08, 0xf8, 0xe5, 0xde, 0x02, 0x04,
    0x04, 0xfd, 0x00, 0x00, 0x00, 0x07, 0x50, 0x2d,
    0x01, 0x90, 0x90, 0x76, 0x60, 0xb0, 0x07, 0x07,
    0x0c, 0x0c, 0x04, 0xfe, 0x05, 0x00, 0x66, 0x66,
    0x5a, 0x56, 0xbc, 0x01, 0x06, 0xfc, 0xfc, 0xf1,
    0xfe, 0x07, 0x00, 0x24, 0x95, 0x70, 0x64, 0x18,
    0x06, 0x2c, 0xff, 0xb5, 0xfe, 0xfe, 0xb5, 0xfe,
    0xfe, 0xe2, 0x8c, 0x24, 0x02, 0x2f, 0xff, 0x2f,
    0xff, 0xb4, 0x78, 0x02, 0x05, 0x73, 0xff, 0xed,
    0xfe, 0xfe, 0x4f, 0xff, 0x36, 0x74, 0x1e, 0x09,
    0x4f, 0xff, 0x50, 0xff, 0xfe, 0x16, 0x00, 0x70,
    0xac, 0x70, 0x8e, 0xac, 0x40, 0x0e, 0x01, 0x70,
    0x7f, 0x8e, 0xac, 0x6c, 0x00, 0x0b, 0xfe, 0x02,
    0x00, 0xfe, 0x0a, 0x2c, 0x2a, 0x2a, 0x28, 0x26,
    0x1e, 0x1e, 0xfe, 0x02, 0x20, 0x65, 0x20, 0x00,
    0x00, 0x05, 0x12, 0x00, 0x11, 0x1e, 0x11, 0x11,
    0x41, 0x1e, 0x41, 0x11, 0x31, 0x1e, 0x31, 0x11,
    0x70, 0x75, 0x7a, 0x7f, 0x84, 0x89, 0x8e, 0x93,
    0x98, 0x30, 0x20, 0x00, 0x02, 0x00, 0xfe, 0x06,
    0x3c, 0xbc, 0x32, 0x0c, 0x00, 0x00, 0x2a, 0x12,
    0x1e, 0x12, 0x2e, 0x12, 0xcc, 0x12, 0x11, 0x1a,
    0x1e, 0x1a, 0x2e, 0x1a, 0x4c, 0x10, 0x1e, 0x10,
    0x11, 0x18, 0x1e, 0x42, 0x1e, 0x42, 0x2e, 0x42,
    0xcc, 0x42, 0x11, 0x4a, 0x1e, 0x4a, 0x2e, 0x4a,
    0x4c, 0x40, 0x1e, 0x40, 0x11, 0x48, 0x1e, 0x32,
    0x1e, 0x32, 0x2e, 0x32, 0xcc, 0x32, 0x11, 0x3a,
    0x1e, 0x3a, 0x2e, 0x3a, 0x4c, 0x30, 0x1e, 0x30,
    0x11, 0x38, 0x1e, 0x27, 0x9a, 0x01, 0x9d, 0xa2,
    0x2f, 0x28, 0x00, 0x00, 0x46, 0xde, 0xc4, 0xbf,
    0xa6, 0x9d, 0x81, 0x7b, 0x5c, 0x61, 0x40, 0xc7,
    0xc0, 0xae, 0xa9, 0x8c, 0x83, 0x6a, 0x62, 0x50,
    0x3e, 0xce, 0xc2, 0xae, 0xa3, 0x8c, 0x7b, 0x6a,
    0x5a, 0x50, 0x35, 0xd7, 0xc2, 0xb7, 0xa4, 0x95,
    0x7e, 0x72, 0x5a, 0x59, 0x37, 0xfe, 0x02, 0xf8,
    0x8c, 0x95, 0x90, 0x8f, 0x00, 0xd7, 0xc0, 0xb7,
    0xa2, 0x95, 0x7b, 0x72, 0x56, 0x59, 0x32, 0xc7,
    0xc3, 0xae, 0xad, 0x8c, 0x85, 0x6a, 0x63, 0x50,
    0x3e, 0xce, 0xc3, 0xae, 0xa4, 0x8c, 0x7c, 0x6a,
    0x59, 0x50, 0x34, 0xd7, 0xc2, 0xb7, 0xa5, 0x95,
    0x7e, 0x72, 0x59, 0x59, 0x36, 0xfc, 0x05, 0x00,
    0x02, 0xce, 0xc5, 0xae, 0xa5, 0x95, 0x83, 0x72,
    0x5c, 0x59, 0x36, 0xbf, 0xc6, 0xa5, 0xab, 0x8c,
    0x8c, 0x6a, 0x67, 0x50, 0x41, 0x64, 0x07, 0x00,
    0x02, 0x95, 0x8c, 0x72, 0x65, 0x59, 0x3f, 0xce,
    0xc7, 0xae, 0xa8, 0x95, 0x86, 0x72, 0x5f, 0x59,
    0x39, 0xfe, 0x02, 0xf8, 0x8b, 0x7c, 0x0b, 0x09,
    0xb7, 0xc2, 0x9d, 0xa4, 0x83, 0x85, 0x6a, 0x6b,
    0x50, 0x44, 0xb7, 0xc1, 0x64, 0x01, 0x00, 0x06,
    0x61, 0x5d, 0x48, 0x3d, 0xae, 0xc4, 0x9d, 0xad,
    0x7b, 0x85, 0x61, 0x66, 0x48, 0x46, 0xae, 0xc3,
    0x95, 0xa3, 0x72, 0x7c, 0x59, 0x56, 0x38, 0x31,
    0x7c, 0x0b, 0x00, 0x0c, 0x96, 0x91, 0x8f, 0x00,
    0xb7, 0xc0, 0xa5, 0xab, 0x8c, 0x8a, 0x6a, 0x64,
    0x50, 0x3c, 0xb7, 0xc0, 0x9d, 0xa0, 0x83, 0x80,
    0x6a, 0x64, 0x50, 0x3d, 0xb7, 0xc5, 0x9d, 0xa5,
    0x83, 0x87, 0x6c, 0x08, 0x07, 0xae, 0xc0, 0x9d,
    0xa8, 0x83, 0x88, 0x6a, 0x6d, 0x50, 0x46, 0xfc,
    0x05, 0x00, 0x16, 0xbf, 0xc0, 0xa5, 0xa2, 0x8c,
    0x7f, 0x6a, 0x57, 0x50, 0x2f, 0xb7, 0xc7, 0xa5,
    0xb1, 0x8c, 0x8e, 0x72, 0x6d, 0x59, 0x45, 0xbf,
    0xc6, 0xa5, 0xa8, 0x8c, 0x87, 0x6a, 0x5f, 0x50,
    0x37, 0xbf, 0xc2, 0xa5, 0xa4, 0x8c, 0x83, 0x6a,
    0x5c, 0x50, 0x34, 0xbc, 0x05, 0x00, 0x0e, 0x90,
    0x00, 0xc7, 0xc2, 0xae, 0xaa, 0x95, 0x82, 0x7b,
    0x60, 0x61, 0x3f, 0xb7, 0xc6, 0xa5, 0xb1, 0x8c,
    0x8d, 0x72, 0x6b, 0x61, 0x51, 0xbf, 0xc4, 0xa5,
    0xa5, 0x8c, 0x82, 0x72, 0x61, 0x59, 0x39, 0x6c,
    0x26, 0x03, 0x95, 0x82, 0x7b, 0x61, 0x61, 0x40,
    0xfc, 0x05, 0x00, 0x00, 0x7e, 0xd7, 0xc3, 0xb7,
    0xa8, 0x9d, 0x80, 0x83, 0x5d, 0x6a, 0x3f, 0xbf,
    0xc7, 0xa5, 0xa8, 0x8c, 0x84, 0x72, 0x60, 0x61,
    0x46, 0xbf, 0xc2, 0xae, 0xb0, 0x9d, 0x92, 0x83,
    0x6f, 0x6a, 0x50, 0xd7, 0xc3, 0xb7, 0xa7, 0x9d,
    0x80, 0x83, 0x5e, 0x6a, 0x40, 0xfe, 0x02, 0xf8,
    0x8d, 0x96, 0x90, 0x90, 0xfe, 0x05, 0x00, 0x8a,
    0xc4, 0x63, 0xb8, 0x3c, 0xa6, 0x29, 0x97, 0x16,
    0x81, 0x84, 0xb7, 0x5b, 0xa9, 0x33, 0x94, 0x1e,
    0x83, 0x11, 0x70, 0xb8, 0xc2, 0x70, 0xb1, 0x4d,
    0xa3, 0x2a, 0x8d, 0x1b, 0x7b, 0xa8, 0xbc, 0x68,
    0xab, 0x47, 0x9d, 0x27, 0x87, 0x18, 0x75, 0xae,
    0xc6, 0x7d, 0xbb, 0x4d, 0xaa, 0x1c, 0x84, 0x11,
    0x72, 0xa3, 0xbb, 0x6e, 0xad, 0x3c, 0x97, 0x24,
    0x85, 0x16, 0x71, 0x80, 0xb2, 0x57, 0xa4, 0x30,
    0x8e, 0x1c, 0x7c, 0x10, 0x68, 0xbb, 0xbd, 0x75,
    0xac, 0x4f, 0x9e, 0x2b, 0x87, 0x1a, 0x76, 0x96,
    0xc5, 0x5e, 0xb5, 0x3e, 0xa5, 0x1f, 0x8c, 0x12,
    0x7a, 0xc1, 0xc6, 0x42, 0x9f, 0x27, 0x8c, 0x16,
    0x77, 0x0f, 0x67, 0x9d, 0xbc, 0x68, 0xad, 0x36,
    0x95, 0x20, 0x83, 0x11, 0x6d, 0x9b, 0xb8, 0x67,
    0xa8, 0x34, 0x90, 0x1f, 0x7c, 0x10, 0x67, 0x9e,
    0xc9, 0x6a, 0xbb, 0x37, 0xa4, 0x20, 0x90, 0x11,
    0x7b, 0xc6, 0xc8, 0x47, 0xa4, 0x2a, 0x90, 0x18,
    0x7b, 0x10, 0x6c, 0xae, 0xc4, 0x5d, 0xad, 0x37,
    0x9a, 0x1f, 0x85, 0x13, 0x75, 0x70, 0xad, 0x42,
    0x99, 0x25, 0x84, 0x17, 0x74, 0x0b, 0x56, 0x87,
    0xc8, 0x57, 0xb8, 0x2b, 0x9e, 0x19, 0x8a, 0x0d,
    0x74, 0xa7, 0xc8, 0x6e, 0xb9, 0x36, 0xa0, 0x1f,
    0x8b, 0x11, 0x75, 0x94, 0xbe, 0x4b, 0xa5, 0x2a,
    0x92, 0x18, 0x7c, 0x0f, 0x6b, 0xaf, 0xc0, 0x58,
    0xa8, 0x34, 0x94, 0x1d, 0x7d, 0x12, 0x6d, 0x82,
    0xc0, 0x52, 0xb0, 0x25, 0x94, 0x14, 0x7f, 0x0c,
    0x68, 0x84, 0xbf, 0x3e, 0xa4, 0x22, 0x8e, 0x10,
    0x76, 0x0b, 0x65, 0x88, 0xb6, 0x42, 0x9b, 0x26,
    0x87, 0x14, 0x70, 0x0c, 0x5f, 0xc5, 0xc2, 0x3e,
    0x97, 0x23, 0x83, 0x13, 0x6c, 0x0c, 0x5c, 0xb1,
    0xc9, 0x76, 0xbc, 0x4a, 0xaa, 0x20, 0x8d, 0x12,
    0x78, 0x93, 0xbf, 0x46, 0xa3, 0x26, 0x8d, 0x14,
    0x74, 0x0c, 0x62, 0xc8, 0xc4, 0x3b, 0x97, 0x21,
    0x82, 0x11, 0x6a, 0x0a, 0x59, 0xa3, 0xb9, 0x68,
    0xa9, 0x30, 0x8d, 0x1a, 0x78, 0x0f, 0x61, 0xa0,
    0xc9, 0x73, 0xbe, 0x50, 0xb1, 0x30, 0x9f, 0x14,
    0x80, 0x83, 0xb7, 0x3c, 0x9a, 0x20, 0x84, 0x0e,
    0x6a, 0x0a, 0x57, 0xac, 0xc2, 0x68, 0xb0, 0x2e,
    0x92, 0x19, 0x7c, 0x0d, 0x63, 0x93, 0xbe, 0x62,
    0xb0, 0x3c, 0x9e, 0x1a, 0x80, 0x0e, 0x6b, 0xbb,
    0x02, 0xa0, 0x02, 0xa0, 0x02, 0x6f, 0x00, 0x75,
    0x00, 0x75, 0x00, 0x00, 0x00, 0xad, 0x02, 0xb3,
    0x02, 0x6f, 0x00, 0x87, 0x00, 0x85, 0xfe, 0x03,
    0x00, 0xc2, 0x02, 0x82, 0x4d, 0x92, 0x6e, 0x4d,
    0xb1, 0xa8, 0x84, 0x01, 0x00, 0x07, 0x7e, 0x00,
    0xa8, 0x02, 0xa4, 0x02, 0xa4, 0x02, 0xa2, 0x00,
    0xa6, 0x00, 0xa6, 0x00, 0x00, 0x00, 0xb4, 0x02,
    0xb4, 0x02, 0x92, 0x00, 0x96, 0x00, 0x96, 0x46,
    0x04, 0xb0, 0x02, 0x64, 0x02, 0x0a, 0x8c, 0x00,
    0x90, 0x02, 0x98, 0x02, 0x98, 0x02, 0x0e, 0x01,
    0x11, 0x01, 0x11, 0x50, 0xc3, 0x08, 0x88, 0x02,
    0x88, 0x02, 0x19, 0x01, 0x02, 0x01, 0x02, 0x01,
    0xf3, 0x2d, 0x00, 0x00]"

subsection \<open>Memory access\<close>

definition word_of_bytes :: "u8 \<Rightarrow> u8 \<Rightarrow> u8 \<Rightarrow> u8 \<Rightarrow> u32" where
  "word_of_bytes b3 b2 b1 b0 =
     push_bit 24 (ucast b3) OR push_bit 16 (ucast b2) OR push_bit 8 (ucast b1) OR ucast b0"

text \<open>\<^verbatim>\<open>*(u32 * )(buf + p)\<close>, in the byte order of the CPU.\<close>

definition load_u32 :: "bool \<Rightarrow> u8 list \<Rightarrow> nat \<Rightarrow> u32 option" where
  "load_u32 be buf p =
     (if p + 4 \<le> length buf
      then Some (if be
                 then word_of_bytes (buf ! p) (buf ! (p + 1)) (buf ! (p + 2)) (buf ! (p + 3))
                 else word_of_bytes (buf ! (p + 3)) (buf ! (p + 2)) (buf ! (p + 1)) (buf ! p))
      else None)"

text \<open>\<^verbatim>\<open>memcpy(dst + d, src + s, n)\<close>: the new contents of \<open>dst\<close>.\<close>

definition memcpy :: "u8 list \<Rightarrow> nat \<Rightarrow> u8 list \<Rightarrow> nat \<Rightarrow> nat \<Rightarrow> u8 list option" where
  "memcpy dst d src s n =
     (if d + n \<le> length dst \<and> s + n \<le> length src
      then Some (take d dst @ take n (drop s src) @ drop (d + n) dst)
      else None)"

subsection \<open>The aligned scan for the ERD magic\<close>

text \<open>
  Lines 512 to 519:
  \<^verbatim>\<open>
  needle = (const u32 * )tempbuf;
  while (RB_MAGIC_ERD != *needle++) {
          if ((u8 * )needle >= tempbuf+templen) { ret = -ENODATA; goto fail; }
  };
  \<close>
  \<open>p\<close> is the byte offset of \<^verbatim>\<open>needle\<close> in \<^verbatim>\<open>tempbuf\<close>. The word is loaded first, the
  pointer is advanced, and only then is the pointer compared with the end of the
  decompressed data. \<open>Found q\<close> carries the offset of \<^verbatim>\<open>needle\<close> after the loop, which is
  four bytes past the magic.
\<close>

datatype scan_result = Found nat | NotFound | ScanFault

function scan_needle :: "env \<Rightarrow> u8 list \<Rightarrow> size_t \<Rightarrow> nat \<Rightarrow> event list \<times> scan_result" where
  "scan_needle e tempbuf templen p =
     (case load_u32 (big_endian e) tempbuf p of
        None \<Rightarrow> ([Load32 TEMPBUF p], ScanFault)
      | Some w \<Rightarrow>
          if w = RB_MAGIC_ERD e then ([Load32 TEMPBUF p], Found (p + 4))
          else if unat templen \<le> p + 4 then ([Load32 TEMPBUF p], NotFound)
          else (case scan_needle e tempbuf templen (p + 4) of
                  (tr, r) \<Rightarrow> (Load32 TEMPBUF p # tr, r)))"
  by pat_completeness auto
termination
  by (relation "measure (\<lambda>(e, tempbuf, templen, p). unat templen - p)") auto

declare scan_needle.simps [simp del]


subsection \<open>Results of the unpacking functions\<close>

definition returns :: "int \<Rightarrow> u8 list \<Rightarrow> size_t \<Rightarrow> event list \<Rightarrow> unpack_result" where
  "returns ret outbuf outlen tr =
     \<lparr>r_ret = Ret ret, r_outbuf = outbuf, r_outlen = outlen, r_trace = tr\<rparr>"

definition faults :: "u8 list \<Rightarrow> size_t \<Rightarrow> event list \<Rightarrow> unpack_result" where
  "faults outbuf outlen tr =
     \<lparr>r_ret = Fault, r_outbuf = outbuf, r_outlen = outlen, r_trace = tr\<rparr>"

definition after :: "event \<Rightarrow> unpack_result \<Rightarrow> unpack_result" where
  "after ev r = r\<lparr>r_trace := ev # r_trace r\<rparr>"

subsection \<open>ERD: \<^verbatim>\<open>hc_wlan_data_unpack_erd\<close>\<close>

text \<open>
  \<open>inbuf\<close> is the offset in \<open>hc_buf\<close> of the byte \<^verbatim>\<open>inbuf\<close> points to. The comparison
  \<^verbatim>\<open>lzo_len > inlen\<close> is made in \<^verbatim>\<open>size_t\<close>, after the conversion of the 16-bit length.
\<close>

definition hc_wlan_data_unpack_erd ::
  "env \<Rightarrow> u8 list \<Rightarrow> nat \<Rightarrow> size_t \<Rightarrow> u8 list \<Rightarrow> size_t \<Rightarrow> unpack_result" where
  "hc_wlan_data_unpack_erd e hc_buf inbuf inlen outbuf outlen =
     (case routerboot_tag_find e hc_buf inbuf inlen 1 of
        (ret, lzo_ofs, lzo_len) \<Rightarrow>
          if ret \<noteq> 0 then returns ret outbuf outlen [TagFind HC_BUF inbuf inlen 1]
          else if inlen < ucast lzo_len
          then returns (- EINVAL) outbuf outlen [TagFind HC_BUF inbuf inlen 1]
          else (case lzo1x_decompress_safe e hc_buf (inbuf + unat lzo_ofs) (ucast lzo_len)
                       outbuf outlen of
                  (ret', outbuf', outlen') \<Rightarrow>
                    returns ret' outbuf' outlen'
                      [TagFind HC_BUF inbuf inlen 1,
                       LzoDecompress HC_BUF (inbuf + unat lzo_ofs) (ucast lzo_len) OUTBUF]))"

subsection \<open>LZOR: \<^verbatim>\<open>hc_wlan_data_unpack_lzor\<close>\<close>

text \<open>
  The function is given in three parts, in the order of the source. Lines 520 to 538,
  after the magic has been found and \<^verbatim>\<open>needle\<close> stands at offset \<open>needle\<close>:
  \<^verbatim>\<open>templen -= (u8 * )needle - tempbuf\<close> is a subtraction in \<^verbatim>\<open>size_t\<close>.
\<close>

definition lzor_decode ::
  "env \<Rightarrow> u8 list \<Rightarrow> size_t \<Rightarrow> nat \<Rightarrow> u8 list \<Rightarrow> size_t \<Rightarrow> event list \<Rightarrow> unpack_result" where
  "lzor_decode e tempbuf templen needle outbuf outlen tr =
     (let templen' = templen - of_nat needle;
          tr' = tr @ [TagFind TEMPBUF needle templen' 1]
      in case routerboot_tag_find e tempbuf needle templen' 1 of
           (ret, rle_ofs, rle_len) \<Rightarrow>
             if ret \<noteq> 0 then returns ret outbuf outlen tr'
             else if templen' < ucast rle_len then returns (- EINVAL) outbuf outlen tr'
             else (case routerboot_rle_decode e tempbuf (needle + unat rle_ofs) (ucast rle_len)
                          outbuf outlen of
                     (ret', outbuf', outlen') \<Rightarrow>
                       returns ret' outbuf' outlen'
                         (tr' @ [RleDecode TEMPBUF (needle + unat rle_ofs) (ucast rle_len)
                                   OUTBUF])))"

text \<open>Lines 512 to 519: the scan, and what follows each of its outcomes.\<close>

definition lzor_scan ::
  "env \<Rightarrow> u8 list \<Rightarrow> size_t \<Rightarrow> u8 list \<Rightarrow> size_t \<Rightarrow> event list \<Rightarrow> unpack_result" where
  "lzor_scan e tempbuf templen outbuf outlen tr =
     (case scan_needle e tempbuf templen 0 of
        (probes, ScanFault) \<Rightarrow> faults outbuf outlen (tr @ probes)
      | (probes, NotFound) \<Rightarrow> returns (- ENODATA) outbuf outlen (tr @ probes)
      | (probes, Found needle) \<Rightarrow>
          lzor_decode e tempbuf templen needle outbuf outlen (tr @ probes))"

text \<open>
  Lines 476 to 505. \<open>kmalloc_res\<close> is what \<^verbatim>\<open>kmalloc(templen, GFP_KERNEL)\<close> returns: \<open>None\<close>
  for NULL, or the scratch buffer with whatever bytes the allocator left in it (the
  memory is not cleared). The
  source tests \<^verbatim>\<open>outbuf\<close> (not \<^verbatim>\<open>tempbuf\<close>) for NULL after the allocation; \<^verbatim>\<open>outbuf\<close> is
  a live buffer at every call, so that test never fires and is not a branch here, and a
  NULL scratch buffer reaches the decompressor, which is a fault.
\<close>

definition hc_wlan_data_unpack_lzor ::
  "env \<Rightarrow> u8 list \<Rightarrow> nat \<Rightarrow> size_t \<Rightarrow> u8 list \<Rightarrow> size_t \<Rightarrow> u8 list option \<Rightarrow> unpack_result" where
  "hc_wlan_data_unpack_lzor e hc_buf inbuf inlen outbuf outlen kmalloc_res =
     (let lzo_len = inlen + of_nat (length hc_lzor_prefix)
      in if outlen < lzo_len then returns (- EFBIG) outbuf outlen []
         else
           let templen = outlen;
               cp1 = Memcpy OUTBUF 0 LZOR_PREFIX 0 (length hc_lzor_prefix);
               cp2 = Memcpy OUTBUF (length hc_lzor_prefix) HC_BUF inbuf (unat inlen);
               tr = [cp1, cp2, LzoDecompress OUTBUF 0 lzo_len TEMPBUF]
           in case memcpy outbuf 0 hc_lzor_prefix 0 (length hc_lzor_prefix) of
                None \<Rightarrow> faults outbuf outlen [cp1]
              | Some outbuf1 \<Rightarrow>
                 (case memcpy outbuf1 (length hc_lzor_prefix) hc_buf inbuf (unat inlen) of
                    None \<Rightarrow> faults outbuf1 outlen [cp1, cp2]
                  | Some outbuf2 \<Rightarrow>
                     (case kmalloc_res of
                        None \<Rightarrow> faults outbuf2 outlen tr
                      | Some tempbuf \<Rightarrow>
                         (case lzo1x_decompress_safe e outbuf2 0 lzo_len tempbuf templen of
                            (ret, tempbuf', templen') \<Rightarrow>
                              if ret \<noteq> 0 \<and> ret \<noteq> LZO_E_INPUT_NOT_CONSUMED
                              then returns ret outbuf2 outlen tr
                              else lzor_scan e tempbuf' templen' outbuf2 outlen tr))))"

subsection \<open>Dispatch: \<^verbatim>\<open>hc_wlan_data_unpack\<close>\<close>

text \<open>\<^verbatim>\<open>hc_buflen\<close> is the size the blob was allocated with.\<close>

definition hc_buflen :: "u8 list \<Rightarrow> size_t" where
  "hc_buflen hc_buf = of_nat (length hc_buf)"

definition hc_wlan_data_unpack ::
  "env \<Rightarrow> u8 list \<Rightarrow> size_t \<Rightarrow> size_t \<Rightarrow> u8 list \<Rightarrow> size_t \<Rightarrow> u8 list option \<Rightarrow> unpack_result" where
  "hc_wlan_data_unpack e hc_buf tofs tlen outbuf outlen kmalloc_res =
     (if hc_buflen hc_buf < tofs + tlen then returns (- EIO) outbuf outlen []
      else case load_u32 (big_endian e) hc_buf (unat tofs) of
             None \<Rightarrow> faults outbuf outlen [Load32 HC_BUF (unat tofs)]
           | Some magic \<Rightarrow>
               if magic = RB_MAGIC_LZOR e
               then after (Load32 HC_BUF (unat tofs))
                      (hc_wlan_data_unpack_lzor e hc_buf (unat tofs + 4) (tlen - 4)
                         outbuf outlen kmalloc_res)
               else if magic = RB_MAGIC_ERD e
               then after (Load32 HC_BUF (unat tofs))
                      (hc_wlan_data_unpack_erd e hc_buf (unat tofs + 4) (tlen - 4)
                         outbuf outlen)
               else (case routerboot_rle_decode e hc_buf (unat tofs) tlen outbuf outlen of
                       (ret, outbuf', outlen') \<Rightarrow>
                         returns ret outbuf' outlen'
                           [Load32 HC_BUF (unat tofs),
                            RleDecode HC_BUF (unat tofs) tlen OUTBUF]))"


subsection \<open>The attribute table and \<^verbatim>\<open>hc_attr_show\<close>\<close>

record hc_attr =
  tag_id :: u16
  tshow :: "renderer option"
  kattr_name :: "string option"
  pld_ofs :: u16
  pld_len :: u16

definition mk_attr :: "u16 \<Rightarrow> renderer option \<Rightarrow> string option \<Rightarrow> hc_attr" where
  "mk_attr i f n = \<lparr>tag_id = i, tshow = f, kattr_name = n, pld_ofs = 0, pld_len = 0\<rparr>"

definition hc_attrs :: "hc_attr list" where
  "hc_attrs =
     [mk_attr 0x03 (Some Routerboot_tag_show_u32s) (Some ''flash_info''),
      mk_attr 0x04 (Some Hc_tag_show_mac) (Some ''mac_base''),
      mk_attr 0x05 (Some Routerboot_tag_show_string) (Some ''board_product_code''),
      mk_attr 0x06 (Some Routerboot_tag_show_string) (Some ''booter_version''),
      mk_attr 0x0B (Some Routerboot_tag_show_string) (Some ''board_serial''),
      mk_attr 0x0D (Some Routerboot_tag_show_u32s) (Some ''mem_size''),
      mk_attr 0x0E (Some Routerboot_tag_show_u32s) (Some ''mac_count''),
      mk_attr 0x15 (Some Hc_tag_show_hwoptions) (Some ''hw_options''),
      mk_attr RB_ID_WLAN_DATA None None,
      mk_attr 0x17 (Some Routerboot_tag_show_string) (Some ''board_identifier''),
      mk_attr 0x21 (Some Routerboot_tag_show_string) (Some ''product_name''),
      mk_attr 0x26 (Some Routerboot_tag_show_string) (Some ''defconf''),
      mk_attr 0x27 (Some Routerboot_tag_show_string) (Some ''board_revision'')]"

record show_result =
  s_ret :: rc
  s_text :: string
  s_trace :: "event list"

text \<open>A NULL \<^verbatim>\<open>tshow\<close> cannot be called: that is a fault.\<close>

definition hc_attr_show :: "env \<Rightarrow> u8 list \<Rightarrow> hc_attr \<Rightarrow> show_result" where
  "hc_attr_show e hc_buf a =
     (if pld_len a = 0 then \<lparr>s_ret = Ret (- ENOENT), s_text = [], s_trace = []\<rparr>
      else case tshow a of
             None \<Rightarrow> \<lparr>s_ret = Fault, s_text = [], s_trace = []\<rparr>
           | Some f \<Rightarrow>
               (case call_tshow e f hc_buf (unat (pld_ofs a)) (pld_len a) of
                  (n, txt) \<Rightarrow>
                    \<lparr>s_ret = Ret n, s_text = txt,
                     s_trace = [Tshow (unat (pld_ofs a)) (pld_len a)]\<rparr>))"

subsection \<open>The calibration file: \<^verbatim>\<open>hc_wlan_data_bin_read\<close>\<close>

record hc_wlan_attr =
  w_pld_ofs :: u16
  w_pld_len :: u16

record read_result =
  b_ret :: rc
  b_buf :: "u8 list"
  b_trace :: "event list"

definition read_returns :: "rc \<Rightarrow> u8 list \<Rightarrow> event list \<Rightarrow> read_result" where
  "read_returns r bytes tr = \<lparr>b_ret = r, b_buf = bytes, b_trace = tr\<rparr>"

text \<open>
  \<open>kmalloc_out\<close> and \<open>kmalloc_tmp\<close> are the results of the two allocations (of the output
  buffer here, of the scratch buffer in the LZOR unpacker). \<open>b_buf\<close> is what
  \<^verbatim>\<open>memcpy\<close> stores at the start of the caller's \<^verbatim>\<open>buf\<close>. With a 32-bit \<^verbatim>\<open>size_t\<close>,
  \<^verbatim>\<open>off >= outlen\<close> and \<^verbatim>\<open>off + count > outlen\<close> are comparisons of signed 64-bit values,
  \<^verbatim>\<open>count = outlen - off\<close> truncates the 64-bit difference, and \<^verbatim>\<open>return count\<close> converts
  to the signed \<^verbatim>\<open>ssize_t\<close>.
\<close>

definition hc_wlan_data_bin_read ::
  "env \<Rightarrow> u8 list \<Rightarrow> hc_wlan_attr \<Rightarrow> u8 list option \<Rightarrow> u8 list option \<Rightarrow> loff_t \<Rightarrow> size_t
     \<Rightarrow> read_result" where
  "hc_wlan_data_bin_read e hc_buf hc_wattr kmalloc_out kmalloc_tmp off count =
     (if w_pld_len hc_wattr = 0 then read_returns (Ret (- ENOENT)) [] []
      else
        let outlen = RB_ART_SIZE e
        in if outlen < ucast (w_pld_len hc_wattr) then read_returns (Ret (- EFBIG)) [] []
           else case kmalloc_out of
                  None \<Rightarrow> read_returns (Ret (- ENOMEM)) [] []
                | Some outbuf \<Rightarrow>
                   (let r = hc_wlan_data_unpack e hc_buf (ucast (w_pld_ofs hc_wattr))
                              (ucast (w_pld_len hc_wattr)) outbuf outlen kmalloc_tmp
                    in case r_ret r of
                         Fault \<Rightarrow> read_returns Fault [] (r_trace r)
                       | Ret ret \<Rightarrow>
                          if ret \<noteq> 0 then read_returns (Ret ret) [] (r_trace r)
                          else if uint (r_outlen r) \<le> sint off
                          then read_returns (Ret 0) [] (r_trace r)
                          else
                            let count' =
                                  (if uint (r_outlen r) < sint (off + ucast count)
                                   then ucast ((ucast (r_outlen r) :: loff_t) - off)
                                   else count);
                                cp = Memcpy USER_BUF 0 OUTBUF (nat (sint off)) (unat count')
                            in if 0 \<le> sint off
                                  \<and> nat (sint off) + unat count' \<le> length (r_outbuf r)
                               then read_returns (Ret (sint count'))
                                      (take (unat count') (drop (nat (sint off)) (r_outbuf r)))
                                      (r_trace r @ [cp])
                               else read_returns Fault [] (r_trace r @ [cp])))"

subsection \<open>Locating the tags: the loop of \<^verbatim>\<open>rb_hardconfig_init\<close>\<close>

text \<open>
  Lines 694 to 733. The tags are searched in the blob past its four bytes of magic, in
  \<^verbatim>\<open>hc_buflen - sizeof(magic)\<close> bytes. For every entry of the table the loop stores
  the payload offset and length (zero and zero when the tag is not found), and asks
  sysfs for a file: the binary file for a non-empty \<^verbatim>\<open>RB_ID_WLAN_DATA\<close>, the entry's
  own attribute otherwise. Nothing is asked for a tag that is not found.
\<close>

datatype sysfs_call = Create_bin_file | Create_file "string option"

fun locate_tags ::
  "env \<Rightarrow> u8 list \<Rightarrow> hc_attr list \<Rightarrow> hc_wlan_attr
     \<Rightarrow> hc_attr list \<times> hc_wlan_attr \<times> sysfs_call list" where
  "locate_tags e hc_buf [] w = ([], w, [])"
| "locate_tags e hc_buf (a # as) w =
     (case routerboot_tag_find e hc_buf 4 (hc_buflen hc_buf - 4) (tag_id a) of
        (ret, ofs, len) \<Rightarrow>
          if ret \<noteq> 0
          then (case locate_tags e hc_buf as w of
                  (as', w', calls) \<Rightarrow> (a\<lparr>pld_ofs := 0, pld_len := 0\<rparr> # as', w', calls))
          else if tag_id a = RB_ID_WLAN_DATA \<and> len \<noteq> 0
          then (case locate_tags e hc_buf as \<lparr>w_pld_ofs = ofs + 4, w_pld_len = len\<rparr> of
                  (as', w', calls) \<Rightarrow>
                    (a\<lparr>pld_ofs := ofs + 4, pld_len := len\<rparr> # as', w', Create_bin_file # calls))
          else (case locate_tags e hc_buf as w of
                  (as', w', calls) \<Rightarrow>
                    (a\<lparr>pld_ofs := ofs + 4, pld_len := len\<rparr> # as', w',
                     Create_file (kattr_name a) # calls)))"

text \<open>
  The state the driver keeps after a successful \<^verbatim>\<open>rb_hardconfig_init\<close>: the table and
  \<^verbatim>\<open>hc_wlandata_battr\<close>, whose two fields are zero until the loop sets them.
\<close>

definition located_attrs :: "env \<Rightarrow> u8 list \<Rightarrow> hc_attr list" where
  "located_attrs e hc_buf =
     fst (locate_tags e hc_buf hc_attrs \<lparr>w_pld_ofs = 0, w_pld_len = 0\<rparr>)"

definition located_wlan_attr :: "env \<Rightarrow> u8 list \<Rightarrow> hc_wlan_attr" where
  "located_wlan_attr e hc_buf =
     fst (snd (locate_tags e hc_buf hc_attrs \<lparr>w_pld_ofs = 0, w_pld_len = 0\<rparr>))"

text \<open>
  Lines 687 to 692 and the loop: the blob is rejected unless it starts with
  \<^verbatim>\<open>RB_MAGIC_HARD\<close>. (Reading the flash partition comes before and is not modelled.)
\<close>

definition rb_hardconfig_init ::
  "env \<Rightarrow> u8 list \<Rightarrow> rc \<times> (hc_attr list \<times> hc_wlan_attr \<times> sysfs_call list) option" where
  "rb_hardconfig_init e hc_buf =
     (case load_u32 (big_endian e) hc_buf 0 of
        None \<Rightarrow> (Fault, None)
      | Some magic \<Rightarrow>
          if RB_MAGIC_HARD e \<noteq> magic then (Ret (- EINVAL), None)
          else (Ret 0, Some (locate_tags e hc_buf hc_attrs \<lparr>w_pld_ofs = 0, w_pld_len = 0\<rparr>)))"


section \<open>Concrete environments\<close>

text \<open>
  Values for the parameters, used where a statement is run on a concrete input: the
  magic numbers as the ASCII spellings \<^verbatim>\<open>Hard\<close>, \<^verbatim>\<open>LZOR\<close> and \<^verbatim>\<open>ERD\<close> read on a
  little-endian CPU, and outside routines that answer with fixed values.
\<close>

definition tag_find_gives ::
  "int \<Rightarrow> u16 \<Rightarrow> u16 \<Rightarrow> u8 list \<Rightarrow> nat \<Rightarrow> size_t \<Rightarrow> u16 \<Rightarrow> int \<times> u16 \<times> u16" where
  "tag_find_gives ret ofs len buf p n i = (ret, ofs, len)"

definition tag_find_only ::
  "u16 \<Rightarrow> u16 \<Rightarrow> u16 \<Rightarrow> u8 list \<Rightarrow> nat \<Rightarrow> size_t \<Rightarrow> u16 \<Rightarrow> int \<times> u16 \<times> u16" where
  "tag_find_only i0 ofs len buf p n i = (if i = i0 then (0, ofs, len) else (- ENOENT, 0, 0))"

text \<open>
  A decoder that answers \<open>ret\<close> after it has written \<open>bytes\<close> at the start of the
  destination, and reports their number in \<^verbatim>\<open>*outlen\<close>. The rest of the destination
  keeps what it held.
\<close>

definition decoder_writes ::
  "int \<Rightarrow> u8 list \<Rightarrow> u8 list \<Rightarrow> nat \<Rightarrow> size_t \<Rightarrow> u8 list \<Rightarrow> size_t
     \<Rightarrow> int \<times> u8 list \<times> size_t" where
  "decoder_writes ret bytes buf p len dst dstlen =
     (ret, bytes @ drop (length bytes) dst, of_nat (length bytes))"

definition tshow_gives :: "renderer \<Rightarrow> u8 list \<Rightarrow> nat \<Rightarrow> u16 \<Rightarrow> int \<times> string" where
  "tshow_gives f buf p n = (2, ''ok'')"

definition example_env ::
  "size_t
   \<Rightarrow> (u8 list \<Rightarrow> nat \<Rightarrow> size_t \<Rightarrow> u16 \<Rightarrow> int \<times> u16 \<times> u16)
   \<Rightarrow> (u8 list \<Rightarrow> nat \<Rightarrow> size_t \<Rightarrow> u8 list \<Rightarrow> size_t \<Rightarrow> int \<times> u8 list \<times> size_t)
   \<Rightarrow> (u8 list \<Rightarrow> nat \<Rightarrow> size_t \<Rightarrow> u8 list \<Rightarrow> size_t \<Rightarrow> int \<times> u8 list \<times> size_t)
   \<Rightarrow> env" where
  "example_env art tag_find rle lzo =
     \<lparr>RB_MAGIC_HARD = 0x64726148, RB_MAGIC_LZOR = 0x524F5A4C, RB_MAGIC_ERD = 0x00445245,
      RB_ART_SIZE = art, big_endian = False,
      routerboot_tag_find = tag_find, routerboot_rle_decode = rle,
      lzo1x_decompress_safe = lzo, call_tshow = tshow_gives\<rparr>"

text \<open>
  A scratch buffer of 2048 bytes as the allocator hands it out, with \<^verbatim>\<open>D\<close> and 0 left
  in the bytes 30 and 31 by an earlier user, and a decompressor output of 30 bytes that
  ends with \<^verbatim>\<open>E\<close> and \<^verbatim>\<open>R\<close>. \<open>scratch_30\<close> is the buffer after the decompressor has
  written its output.
\<close>

definition stale_scratch :: "u8 list" where
  "stale_scratch = replicate 30 0 @ [0x44, 0x00] @ replicate 2016 0"

definition lzo_output_30 :: "u8 list" where
  "lzo_output_30 = replicate 28 0 @ [0x45, 0x52]"

definition scratch_30 :: "u8 list" where
  "scratch_30 = replicate 28 0 @ [0x45, 0x52, 0x44, 0x00] @ replicate 2016 0"

text \<open>
  A blob of 20 bytes: the magic \<^verbatim>\<open>Hard\<close>, the node of tag \<^verbatim>\<open>0x16\<close> with length 12, and
  its payload, which is the magic \<^verbatim>\<open>ERD\<close>, a node of tag 1 with length 8, and the four
  bytes that are left.
\<close>

definition blob_20 :: "u8 list" where
  "blob_20 = [0x48, 0x61, 0x72, 0x64,  0x16, 0x00, 0x0C, 0x00,
              0x45, 0x52, 0x44, 0x00,  0x01, 0x00, 0x08, 0x00,  0x11, 0x00, 0x00, 0x00]"

text \<open>
  A decompressor output of 36 bytes with the ERD magic at offset 24, followed by a node
  of tag 1 with length 4 and four bytes of payload; \<open>scratch_36\<close> is a zeroed scratch
  buffer of 2048 bytes after this output has been written to it.
\<close>

definition lzo_output_36 :: "u8 list" where
  "lzo_output_36 = replicate 24 0 @
     [0x45, 0x52, 0x44, 0x00,  0x01, 0x00, 0x04, 0x00,  0xAA, 0xBB, 0xCC, 0xDD]"

definition scratch_36 :: "u8 list" where
  "scratch_36 = lzo_output_36 @ replicate 2012 0"

text \<open>Two more blobs of 20 bytes, with an LZOR record and with a record without magic.\<close>

definition blob_lzor_20 :: "u8 list" where
  "blob_lzor_20 = [0x48, 0x61, 0x72, 0x64,  0x16, 0x00, 0x0C, 0x00,
                   0x4C, 0x5A, 0x4F, 0x52,  0x01, 0x02, 0x03, 0x04,  0x05, 0x06, 0x07, 0x08]"

definition blob_raw_20 :: "u8 list" where
  "blob_raw_20 = [0x48, 0x61, 0x72, 0x64,  0x16, 0x00, 0x0C, 0x00,
                  0x01, 0x02, 0x03, 0x04,  0x05, 0x06, 0x07, 0x08,  0x09, 0x0A, 0x0B, 0x0C]"

text \<open>
  A blob of 16 bytes whose calibration tag has a payload of two bytes, \<^verbatim>\<open>E\<close> and
  \<^verbatim>\<open>R\<close>; the two bytes that pad the payload to the next node are \<^verbatim>\<open>D\<close> and 0.
\<close>

definition blob_short_16 :: "u8 list" where
  "blob_short_16 = [0x48, 0x61, 0x72, 0x64,  0x16, 0x00, 0x02, 0x00,
                    0x45, 0x52, 0x44, 0x00,  0x00, 0x00, 0x00, 0x00]"

section \<open>Properties\<close>

subsection \<open>The scan loop\<close>

lemma probe_count_step:
  fixes n p :: nat
  assumes "p + 4 < n"
  shows "Suc ((n - (p + 4) - 1) div 4) = (n - p - 1) div 4"
proof -
  define k where "k = n - (p + 5)"
  with assms have "n = p + 5 + k" by simp
  then show ?thesis by simp
qed

lemma map_probe_shift:
  "map (\<lambda>i. Load32 TEMPBUF (p + 4 + 4 * i)) [0..<n] =
   map (\<lambda>i. Load32 TEMPBUF (p + 4 * i)) [1..<Suc n]"
proof -
  have "[1..<Suc n] = map Suc [0..<n]" by (simp add: map_Suc_upt)
  then show ?thesis by (simp add: comp_def)
qed

text \<open>One run of the loop body that goes round again.\<close>

lemma scan_needle_step:
  assumes "load_u32 (big_endian e) tempbuf p = Some w"
      and "w \<noteq> RB_MAGIC_ERD e" and "p + 4 < unat templen"
      and "scan_needle e tempbuf templen (p + 4) = (tr, r)"
  shows "scan_needle e tempbuf templen p = (Load32 TEMPBUF p # tr, r)"
  using assms by (subst scan_needle.simps) simp

text \<open>A run of the loop body that leaves the loop: one load and no more.\<close>

lemma scan_needle_stop:
  assumes "load_u32 (big_endian e) tempbuf p = None
           \<or> load_u32 (big_endian e) tempbuf p = Some (RB_MAGIC_ERD e)
           \<or> unat templen \<le> p + 4"
  shows "fst (scan_needle e tempbuf templen p) = [Load32 TEMPBUF p]"
  using assms by (subst scan_needle.simps) (auto split: option.splits)

lemma scan_needle_probes:
  "fst (scan_needle e tempbuf templen p) =
     map (\<lambda>i. Load32 TEMPBUF (p + 4 * i)) [0..<length (fst (scan_needle e tempbuf templen p))]"
proof (induction e tempbuf templen p rule: scan_needle.induct)
  case (1 e tempbuf templen p)
  show ?case
  proof (cases "load_u32 (big_endian e) tempbuf p = None
           \<or> load_u32 (big_endian e) tempbuf p = Some (RB_MAGIC_ERD e)
           \<or> unat templen \<le> p + 4")
    case True
    then show ?thesis by (simp add: scan_needle_stop)
  next
    case False
    then obtain w where w: "load_u32 (big_endian e) tempbuf p = Some w"
      and ne: "w \<noteq> RB_MAGIC_ERD e" and lt: "p + 4 < unat templen"
      by (cases "load_u32 (big_endian e) tempbuf p") auto
    obtain tr r where tr: "scan_needle e tempbuf templen (p + 4) = (tr, r)"
      by (cases "scan_needle e tempbuf templen (p + 4)")
    from w ne lt have "fst (scan_needle e tempbuf templen (p + 4)) =
        map (\<lambda>i. Load32 TEMPBUF (p + 4 + 4 * i))
          [0..<length (fst (scan_needle e tempbuf templen (p + 4)))]"
      using "1.IH" by simp
    with tr have "tr = map (\<lambda>i. Load32 TEMPBUF (p + 4 * i)) [1..<Suc (length tr)]"
      using map_probe_shift [of p "length tr"] by simp
    then have "Load32 TEMPBUF p # tr =
        map (\<lambda>i. Load32 TEMPBUF (p + 4 * i)) [0..<Suc (length tr)]"
      by (simp add: upt_conv_Cons del: upt_Suc)
    with scan_needle_step [OF w ne lt tr] show ?thesis by simp
  qed
qed

lemma scan_needle_length:
  "length (fst (scan_needle e tempbuf templen p)) \<le> Suc ((unat templen - p - 1) div 4)"
proof (induction e tempbuf templen p rule: scan_needle.induct)
  case (1 e tempbuf templen p)
  show ?case
  proof (cases "load_u32 (big_endian e) tempbuf p = None
           \<or> load_u32 (big_endian e) tempbuf p = Some (RB_MAGIC_ERD e)
           \<or> unat templen \<le> p + 4")
    case True
    then show ?thesis by (simp add: scan_needle_stop)
  next
    case False
    then obtain w where w: "load_u32 (big_endian e) tempbuf p = Some w"
      and ne: "w \<noteq> RB_MAGIC_ERD e" and lt: "p + 4 < unat templen"
      by (cases "load_u32 (big_endian e) tempbuf p") auto
    obtain tr r where tr: "scan_needle e tempbuf templen (p + 4) = (tr, r)"
      by (cases "scan_needle e tempbuf templen (p + 4)")
    from w ne lt have "length (fst (scan_needle e tempbuf templen (p + 4)))
        \<le> Suc ((unat templen - (p + 4) - 1) div 4)"
      using "1.IH" by simp
    with tr have "length tr \<le> (unat templen - p - 1) div 4"
      using probe_count_step [OF lt] by simp
    with scan_needle_step [OF w ne lt tr] show ?thesis by simp
  qed
qed

lemma scan_needle_nonempty: "fst (scan_needle e tempbuf templen p) \<noteq> []"
  by (subst scan_needle.simps) (auto split: option.splits prod.splits)

text \<open>
  C7. The scan loop ends on every scratch buffer and every filled length: it is a total
  function, and a run started at offset 0 makes at least one and at most
  \<open>1 + (templen - 1) div 4\<close> loads, at the offsets 0, 4, 8, ... in this order. The offset
  grows by four with every turn, and no turn starts at an offset other than 0 that has
  reached \<open>templen\<close>.
\<close>

theorem scan_needle_terminates:
  "fst (scan_needle e tempbuf templen 0) =
     map (\<lambda>i. Load32 TEMPBUF (4 * i)) [0..<length (fst (scan_needle e tempbuf templen 0))]
   \<and> 0 < length (fst (scan_needle e tempbuf templen 0))
   \<and> length (fst (scan_needle e tempbuf templen 0)) \<le> Suc ((unat templen - 1) div 4)"
  using scan_needle_probes [of e tempbuf templen 0] scan_needle_length [of e tempbuf templen 0]
    scan_needle_nonempty [of e tempbuf templen 0]
  by simp


subsection \<open>Evaluation helpers\<close>

lemma length_hc_lzor_prefix: "length hc_lzor_prefix = 1380"
  by (simp add: hc_lzor_prefix_def)

lemma minus_two_size_t: "(- 2 :: size_t) = 0xFFFFFFFE"
  by simp

lemma lzo_output_30_written: "lzo_output_30 @ drop 30 stale_scratch = scratch_30"
  by (simp add: lzo_output_30_def stale_scratch_def scratch_30_def)

lemma length_lzo_output_30: "length lzo_output_30 = 30"
  by (simp add: lzo_output_30_def)

lemma scan_scratch_30:
  "scan_needle (example_env art tf rle lzo) scratch_30 30 0 =
     ([Load32 TEMPBUF 0, Load32 TEMPBUF 4, Load32 TEMPBUF 8, Load32 TEMPBUF 12,
       Load32 TEMPBUF 16, Load32 TEMPBUF 20, Load32 TEMPBUF 24, Load32 TEMPBUF 28], Found 32)"
  by (simp add: scan_needle.simps example_env_def load_u32_def scratch_30_def
      word_of_bytes_def nth_append)

lemma memcpy_prefix_2048:
  "memcpy (replicate 2048 0) 0 hc_lzor_prefix 0 (length hc_lzor_prefix)
   = Some (hc_lzor_prefix @ replicate 668 0)"
  by (simp add: memcpy_def length_hc_lzor_prefix)

lemma memcpy_record_8:
  "memcpy (hc_lzor_prefix @ replicate 668 0) (length hc_lzor_prefix) (replicate 64 0) 8 8
   = Some (hc_lzor_prefix @ replicate 8 0 @ replicate 660 0)"
  by (simp add: memcpy_def length_hc_lzor_prefix)

lemma lzo_output_36_written: "lzo_output_36 @ drop (length lzo_output_36) (replicate 2048 0) = scratch_36"
  by (simp add: lzo_output_36_def scratch_36_def)

lemma scan_scratch_36:
  "scan_needle (example_env art tf rle lzo) scratch_36 36 0 =
     ([Load32 TEMPBUF 0, Load32 TEMPBUF 4, Load32 TEMPBUF 8, Load32 TEMPBUF 12,
       Load32 TEMPBUF 16, Load32 TEMPBUF 20, Load32 TEMPBUF 24], Found 28)"
  by (simp add: scan_needle.simps example_env_def load_u32_def scratch_36_def lzo_output_36_def
      word_of_bytes_def nth_append)

subsection \<open>The scan and the filled length\<close>

text \<open>
  C1. The claim is that the scan loads only words that lie inside the decompressed
  data and answers \<^verbatim>\<open>-ENODATA\<close> when no aligned magic lies inside it. The loop loads
  a word before it compares the pointer with the end of the data, so this fails when
  the decompressed length is not a multiple of four (or is zero). Here the
  decompressor has filled 30 bytes of a scratch buffer of 2048 bytes; none of the
  aligned words at the offsets 0 to 24 is the magic. The code loads the word at offset
  28, whose last two bytes were never written by the decompressor, finds the magic in
  it, leaves the loop with \<^verbatim>\<open>needle\<close> at offset 32, computes
  \<^verbatim>\<open>templen = 30 - 32 = 0xFFFFFFFE\<close> and calls the tag scanner with that length. The
  return value is the tag scanner's, not \<^verbatim>\<open>-ENODATA\<close>.
\<close>

theorem lzor_scan_reads_past_filled_length:
  "map (load_u32 False scratch_30) [0, 4, 8, 12, 16, 20, 24] = replicate 7 (Some 0)
   \<and> load_u32 False scratch_30 28 = Some 0x00445245
   \<and> hc_wlan_data_unpack_lzor
       (example_env 2048 (tag_find_gives (- ENOENT) 0 0) (decoder_writes 0 [])
          (decoder_writes 0 lzo_output_30))
       (replicate 64 0) 8 8 (replicate 2048 0) 2048 (Some stale_scratch)
     = returns (- ENOENT)
         (hc_lzor_prefix @ replicate 8 0 @ replicate 660 0) 2048
         [Memcpy OUTBUF 0 LZOR_PREFIX 0 1380, Memcpy OUTBUF 1380 HC_BUF 8 8,
          LzoDecompress OUTBUF 0 1388 TEMPBUF,
          Load32 TEMPBUF 0, Load32 TEMPBUF 4, Load32 TEMPBUF 8, Load32 TEMPBUF 12,
          Load32 TEMPBUF 16, Load32 TEMPBUF 20, Load32 TEMPBUF 24, Load32 TEMPBUF 28,
          TagFind TEMPBUF 32 0xFFFFFFFE 1]"
proof -
  have a: "map (load_u32 False scratch_30) [0, 4, 8, 12, 16, 20, 24] = replicate 7 (Some 0)"
    by (simp add: load_u32_def scratch_30_def word_of_bytes_def nth_append numeral_eq_Suc)
  have b: "load_u32 False scratch_30 28 = Some 0x00445245"
    by (simp add: load_u32_def scratch_30_def word_of_bytes_def nth_append)
  have c: "hc_wlan_data_unpack_lzor
       (example_env 2048 (tag_find_gives (- ENOENT) 0 0) (decoder_writes 0 [])
          (decoder_writes 0 lzo_output_30))
       (replicate 64 0) 8 8 (replicate 2048 0) 2048 (Some stale_scratch)
     = returns (- ENOENT)
         (hc_lzor_prefix @ replicate 8 0 @ replicate 660 0) 2048
         [Memcpy OUTBUF 0 LZOR_PREFIX 0 1380, Memcpy OUTBUF 1380 HC_BUF 8 8,
          LzoDecompress OUTBUF 0 1388 TEMPBUF,
          Load32 TEMPBUF 0, Load32 TEMPBUF 4, Load32 TEMPBUF 8, Load32 TEMPBUF 12,
          Load32 TEMPBUF 16, Load32 TEMPBUF 20, Load32 TEMPBUF 24, Load32 TEMPBUF 28,
          TagFind TEMPBUF 32 0xFFFFFFFE 1]"
    unfolding hc_wlan_data_unpack_lzor_def lzor_scan_def Let_def
    apply (simp add: length_hc_lzor_prefix memcpy_def)
    apply (simp add: example_env_def decoder_writes_def lzo_output_30_written
        length_lzo_output_30 scan_scratch_30 [unfolded example_env_def])
    apply (simp add: lzor_decode_def tag_find_gives_def ENOENT_def length_hc_lzor_prefix
        minus_two_size_t)
    done
  from a b c show ?thesis by simp
qed

text \<open>
  For comparison: when the decompressed length is a multiple of four and not zero,
  every word the scan loads lies inside the decompressed data.
\<close>

lemma scan_needle_aligned_in_bounds:
  assumes "4 dvd unat templen" and "0 < unat templen"
      and "i < length (fst (scan_needle e tempbuf templen 0))"
  shows "fst (scan_needle e tempbuf templen 0) ! i = Load32 TEMPBUF (4 * i)
         \<and> 4 * i + 4 \<le> unat templen"
proof -
  from assms(1) obtain k where k: "unat templen = 4 * k" by (rule dvdE)
  with assms(2) have "0 < k" by simp
  then have "(4 * k - 1) div 4 = k - 1"
    by (cases k) (simp_all add: div_nat_eqI)
  with k scan_needle_length [of e tempbuf templen 0] assms(3) \<open>0 < k\<close>
  have "i < k" by simp
  then have b: "4 * i + 4 \<le> unat templen" using k by simp
  have "fst (scan_needle e tempbuf templen 0) ! i
        = map (\<lambda>i. Load32 TEMPBUF (0 + 4 * i))
            [0..<length (fst (scan_needle e tempbuf templen 0))] ! i"
    using scan_needle_probes [of e tempbuf templen 0] by simp
  also have "\<dots> = Load32 TEMPBUF (4 * i)" using assms(3) by simp
  finally show ?thesis using b by simp
qed

subsection \<open>The bound check on the embedded payload\<close>

text \<open>
  C2. The claim is that the payload of the embedded tag is only handed on after
  \<open>offset + length \<le> region length\<close> has been checked. Both unpackers compare the
  length alone with the region length (\<^verbatim>\<open>lzo_len > inlen\<close>, \<^verbatim>\<open>rle_len > templen\<close>) and
  leave the offset out. Here the calibration record is the last 12 bytes of a blob of 20
  bytes: the ERD magic, a node of tag 1 with length 8, and four more bytes. The region
  after the magic is 8 bytes long, the tag scanner reports the payload at offset 4 with
  length 8, the check \<open>8 > 8\<close> lets it pass, and the decompressor is called on the 8
  bytes from offset 16 of the blob, four of which lie behind its end. The return value
  is the decompressor's, not \<^verbatim>\<open>-EINVAL\<close>.
\<close>

theorem erd_payload_past_region:
  "length blob_20 = 20
   \<and> load_u32 False blob_20 8 = Some 0x00445245
   \<and> hc_wlan_data_unpack
        (example_env 2048 (tag_find_gives 0 4 8) (decoder_writes 0 [])
           (decoder_writes 0 [1, 2, 3, 4]))
        blob_20 8 12 (replicate 2048 0) 2048 None
      = returns 0 ([1, 2, 3, 4] @ replicate 2044 0) 4
          [Load32 HC_BUF 8, TagFind HC_BUF 12 8 1, LzoDecompress HC_BUF 16 8 OUTBUF]"
  by (simp add: hc_wlan_data_unpack_def hc_buflen_def blob_20_def load_u32_def word_of_bytes_def
      example_env_def hc_wlan_data_unpack_erd_def tag_find_gives_def decoder_writes_def
      after_def returns_def)


text \<open>What the test does stop: a length that alone is above the length of the region.\<close>

lemma erd_length_test:
  assumes "routerboot_tag_find e hc_buf inbuf inlen 1 = (0, lzo_ofs, lzo_len)"
      and "inlen < ucast lzo_len"
  shows "hc_wlan_data_unpack_erd e hc_buf inbuf inlen outbuf outlen
         = returns (- EINVAL) outbuf outlen [TagFind HC_BUF inbuf inlen 1]"
  using assms by (simp add: hc_wlan_data_unpack_erd_def)

subsection \<open>The LZOR unpacker, step by step\<close>

lemma r_trace_returns [simp]: "r_trace (returns ret outbuf outlen tr) = tr"
  by (simp add: returns_def)

lemma r_trace_faults [simp]: "r_trace (faults outbuf outlen tr) = tr"
  by (simp add: faults_def)

lemma r_ret_returns [simp]: "r_ret (returns ret outbuf outlen tr) = Ret ret"
  by (simp add: returns_def)

lemma r_outlen_returns [simp]: "r_outlen (returns ret outbuf outlen tr) = outlen"
  by (simp add: returns_def)

lemma r_outbuf_returns [simp]: "r_outbuf (returns ret outbuf outlen tr) = outbuf"
  by (simp add: returns_def)

text \<open>
  The sum \<^verbatim>\<open>inlen + sizeof(hc_lzor_prefix)\<close> is a sum in \<^verbatim>\<open>size_t\<close>. It is the sum of the
  two numbers whenever that is below \<open>2 ^ 32\<close>, which holds for every \<open>inlen\<close> that
  is the length of a record of at most 65535 bytes less its four bytes of magic.
\<close>

lemma lzo_len_no_wrap:
  fixes inlen outlen :: size_t
  assumes "unat inlen + length hc_lzor_prefix < 2 ^ 32"
  shows "(outlen < inlen + of_nat (length hc_lzor_prefix))
         = (unat outlen < unat inlen + length hc_lzor_prefix)"
proof -
  have "unat (inlen + (of_nat (length hc_lzor_prefix) :: size_t)) = unat inlen + length hc_lzor_prefix"
    using assms by (simp add: unat_word_ariths length_hc_lzor_prefix)
  then show ?thesis by (simp add: word_less_nat_alt)
qed

lemma lzor_reaches_decompressor:
  assumes "\<not> outlen < inlen + of_nat (length hc_lzor_prefix)"
      and "memcpy outbuf 0 hc_lzor_prefix 0 (length hc_lzor_prefix) = Some outbuf1"
      and "memcpy outbuf1 (length hc_lzor_prefix) hc_buf inbuf (unat inlen) = Some outbuf2"
      and "lzo1x_decompress_safe e outbuf2 0 (inlen + of_nat (length hc_lzor_prefix)) tempbuf outlen
           = (ret, tempbuf', templen')"
  shows "hc_wlan_data_unpack_lzor e hc_buf inbuf inlen outbuf outlen (Some tempbuf) =
     (if ret \<noteq> 0 \<and> ret \<noteq> LZO_E_INPUT_NOT_CONSUMED
      then returns ret outbuf2 outlen
             [Memcpy OUTBUF 0 LZOR_PREFIX 0 (length hc_lzor_prefix),
              Memcpy OUTBUF (length hc_lzor_prefix) HC_BUF inbuf (unat inlen),
              LzoDecompress OUTBUF 0 (inlen + of_nat (length hc_lzor_prefix)) TEMPBUF]
      else lzor_scan e tempbuf' templen' outbuf2 outlen
             [Memcpy OUTBUF 0 LZOR_PREFIX 0 (length hc_lzor_prefix),
              Memcpy OUTBUF (length hc_lzor_prefix) HC_BUF inbuf (unat inlen),
              LzoDecompress OUTBUF 0 (inlen + of_nat (length hc_lzor_prefix)) TEMPBUF])"
  using assms by (simp add: hc_wlan_data_unpack_lzor_def Let_def)

lemma scan_needle_first_probe:
  "\<exists>rest. fst (scan_needle e tempbuf templen p) = Load32 TEMPBUF p # rest"
  by (subst scan_needle.simps) (auto split: option.splits prod.splits)

lemma lzor_decode_trace:
  "\<exists>rest. r_trace (lzor_decode e tempbuf templen needle outbuf outlen tr)
      = tr @ TagFind TEMPBUF needle (templen - of_nat needle) 1 # rest"
  by (auto simp: lzor_decode_def Let_def split: prod.splits)

lemma lzor_scan_trace:
  "\<exists>rest. r_trace (lzor_scan e tempbuf templen outbuf outlen tr) = tr @ Load32 TEMPBUF 0 # rest"
proof -
  obtain probes r where s: "scan_needle e tempbuf templen 0 = (probes, r)"
    by (cases "scan_needle e tempbuf templen 0")
  with scan_needle_first_probe [of e tempbuf templen 0]
  obtain ps where ps: "probes = Load32 TEMPBUF 0 # ps" by auto
  show ?thesis
  proof (cases r)
    case (Found q)
    with s ps lzor_decode_trace [of e tempbuf templen q outbuf outlen "tr @ probes"]
    show ?thesis by (auto simp: lzor_scan_def)
  next
    case NotFound
    with s ps show ?thesis by (simp add: lzor_scan_def)
  next
    case ScanFault
    with s ps show ?thesis by (simp add: lzor_scan_def)
  qed
qed

lemma scan_needle_found:
  "scan_needle e tempbuf templen p = (tr, Found q) \<Longrightarrow>
     q = p + 4 * length tr \<and> tr \<noteq> []
     \<and> load_u32 (big_endian e) tempbuf (q - 4) = Some (RB_MAGIC_ERD e)
     \<and> last tr = Load32 TEMPBUF (q - 4)"
proof (induction e tempbuf templen p arbitrary: tr rule: scan_needle.induct)
  case (1 e tempbuf templen p)
  show ?case
  proof (cases "load_u32 (big_endian e) tempbuf p")
    case None
    with "1.prems" show ?thesis by (subst (asm) scan_needle.simps) simp
  next
    case (Some w)
    show ?thesis
    proof (cases "w = RB_MAGIC_ERD e")
      case True
      with Some "1.prems" show ?thesis by (subst (asm) scan_needle.simps) auto
    next
      case ne: False
      show ?thesis
      proof (cases "unat templen \<le> p + 4")
        case True
        with Some ne "1.prems" show ?thesis by (subst (asm) scan_needle.simps) simp
      next
        case False
        then have lt: "p + 4 < unat templen" by simp
        obtain tr' r where tr': "scan_needle e tempbuf templen (p + 4) = (tr', r)"
          by (cases "scan_needle e tempbuf templen (p + 4)")
        from scan_needle_step [OF Some ne lt tr'] "1.prems"
        have eq: "tr = Load32 TEMPBUF p # tr'" and r: "r = Found q" by simp_all
        from tr' r have "scan_needle e tempbuf templen (p + 4) = (tr', Found q)" by simp
        from "1.IH" [OF Some ne False this]
        have q: "q = p + 4 + 4 * length tr'" and ne': "tr' \<noteq> []"
          and ld: "load_u32 (big_endian e) tempbuf (q - 4) = Some (RB_MAGIC_ERD e)"
          and la: "last tr' = Load32 TEMPBUF (q - 4)" by blast+
        from q eq have 1: "q = p + 4 * length tr" by simp
        from ne' eq have 2: "last tr = last tr'" by simp
        from eq have 3: "tr \<noteq> []" by simp
        from 1 2 3 ld la show ?thesis by metis
      qed
    qed
  qed
qed

text \<open>
  C5. When the length of the record after its magic plus the length of the prefix
  (the sum the code computes, in \<^verbatim>\<open>size_t\<close>) is above the capacity \<^verbatim>\<open>*outlen\<close>, the LZOR
  unpacker returns \<^verbatim>\<open>-EFBIG\<close>; the output buffer and \<^verbatim>\<open>*outlen\<close> are as they were, and
  the trace is empty: nothing has been copied and the decompressor has not been called.
\<close>

theorem lzor_too_big:
  assumes "outlen < inlen + of_nat (length hc_lzor_prefix)"
  shows "hc_wlan_data_unpack_lzor e hc_buf inbuf inlen outbuf outlen kmalloc_res
         = returns (- EFBIG) outbuf outlen []"
  using assms by (simp add: hc_wlan_data_unpack_lzor_def)

theorem lzor_too_big_witness:
  "(2048 :: size_t) < 1000 + of_nat (length hc_lzor_prefix)
   \<and> hc_wlan_data_unpack_lzor
         (example_env 2048 (tag_find_gives 0 4 8) (decoder_writes 0 []) (decoder_writes 0 []))
         (replicate 2000 0) 8 1000 (replicate 2048 0) 2048 (Some stale_scratch)
       = returns (- EFBIG) (replicate 2048 0) 2048 []"
proof -
  have h: "(2048 :: size_t) < 1000 + of_nat (length hc_lzor_prefix)"
    by (simp add: length_hc_lzor_prefix)
  show ?thesis using h lzor_too_big [OF h] by simp
qed

text \<open>
  C6. Once the decompressor has been called: when it answers
  \<^verbatim>\<open>LZO_E_INPUT_NOT_CONSUMED\<close> the unpacker goes on with the scan for the magic (its next
  step is the load of the word at offset 0 of the scratch buffer), exactly as after the
  answer 0; every other answer that is not 0 is returned at once, with no further step.
\<close>

theorem lzor_input_not_consumed_is_not_fatal:
  assumes "\<not> outlen < inlen + of_nat (length hc_lzor_prefix)"
      and "memcpy outbuf 0 hc_lzor_prefix 0 (length hc_lzor_prefix) = Some outbuf1"
      and "memcpy outbuf1 (length hc_lzor_prefix) hc_buf inbuf (unat inlen) = Some outbuf2"
      and "lzo1x_decompress_safe e outbuf2 0 (inlen + of_nat (length hc_lzor_prefix)) tempbuf outlen
           = (ret, tempbuf', templen')"
      and "tr = [Memcpy OUTBUF 0 LZOR_PREFIX 0 (length hc_lzor_prefix),
                 Memcpy OUTBUF (length hc_lzor_prefix) HC_BUF inbuf (unat inlen),
                 LzoDecompress OUTBUF 0 (inlen + of_nat (length hc_lzor_prefix)) TEMPBUF]"
  shows "(ret = LZO_E_INPUT_NOT_CONSUMED \<longrightarrow>
            hc_wlan_data_unpack_lzor e hc_buf inbuf inlen outbuf outlen (Some tempbuf)
              = lzor_scan e tempbuf' templen' outbuf2 outlen tr
            \<and> (\<exists>rest. r_trace (hc_wlan_data_unpack_lzor e hc_buf inbuf inlen outbuf outlen
                                  (Some tempbuf))
                        = tr @ Load32 TEMPBUF 0 # rest))
       \<and> (ret \<noteq> 0 \<and> ret \<noteq> LZO_E_INPUT_NOT_CONSUMED \<longrightarrow>
            hc_wlan_data_unpack_lzor e hc_buf inbuf inlen outbuf outlen (Some tempbuf)
              = returns ret outbuf2 outlen tr)"
  using lzor_reaches_decompressor [OF assms(1-4)] assms(5)
    lzor_scan_trace [of e tempbuf' templen' outbuf2 outlen tr]
  by simp

theorem lzor_input_not_consumed_is_not_fatal_witness:
  "r_ret (hc_wlan_data_unpack_lzor
       (example_env 2048 (tag_find_gives 0 4 4) (decoder_writes 0 [0x5A])
          (decoder_writes LZO_E_INPUT_NOT_CONSUMED lzo_output_36))
       (replicate 64 0) 8 8 (replicate 2048 0) 2048 (Some (replicate 2048 0))) = Ret 0
   \<and> r_trace (hc_wlan_data_unpack_lzor
       (example_env 2048 (tag_find_gives 0 4 4) (decoder_writes 0 [0x5A])
          (decoder_writes LZO_E_INPUT_NOT_CONSUMED lzo_output_36))
       (replicate 64 0) 8 8 (replicate 2048 0) 2048 (Some (replicate 2048 0)))
     = [Memcpy OUTBUF 0 LZOR_PREFIX 0 1380, Memcpy OUTBUF 1380 HC_BUF 8 8,
        LzoDecompress OUTBUF 0 1388 TEMPBUF,
        Load32 TEMPBUF 0, Load32 TEMPBUF 4, Load32 TEMPBUF 8, Load32 TEMPBUF 12,
        Load32 TEMPBUF 16, Load32 TEMPBUF 20, Load32 TEMPBUF 24,
        TagFind TEMPBUF 28 8 1, RleDecode TEMPBUF 32 4 OUTBUF]
   \<and> hc_wlan_data_unpack_lzor
       (example_env 2048 (tag_find_gives 0 4 4) (decoder_writes 0 [0x5A])
          (decoder_writes (- 4) []))
       (replicate 64 0) 8 8 (replicate 2048 0) 2048 (Some (replicate 2048 0))
     = returns (- 4) (hc_lzor_prefix @ replicate 8 0 @ replicate 660 0) 2048
        [Memcpy OUTBUF 0 LZOR_PREFIX 0 1380, Memcpy OUTBUF 1380 HC_BUF 8 8,
         LzoDecompress OUTBUF 0 1388 TEMPBUF]"
proof -
  let ?e1 = "example_env 2048 (tag_find_gives 0 4 4) (decoder_writes 0 [0x5A])
          (decoder_writes LZO_E_INPUT_NOT_CONSUMED lzo_output_36)"
  let ?e2 = "example_env 2048 (tag_find_gives 0 4 4) (decoder_writes 0 [0x5A])
          (decoder_writes (- 4) [])"
  let ?ob2 = "hc_lzor_prefix @ replicate 8 0 @ replicate 660 0"
  let ?tr = "[Memcpy OUTBUF 0 LZOR_PREFIX 0 (length hc_lzor_prefix),
              Memcpy OUTBUF (length hc_lzor_prefix) HC_BUF 8 (unat (8 :: size_t)),
              LzoDecompress OUTBUF 0 (8 + of_nat (length hc_lzor_prefix)) TEMPBUF]"
  have fits: "\<not> (2048 :: size_t) < 8 + of_nat (length hc_lzor_prefix)"
    by (simp add: length_hc_lzor_prefix)
  have cp2: "memcpy (hc_lzor_prefix @ replicate 668 0) (length hc_lzor_prefix) (replicate 64 0) 8
               (unat (8 :: size_t)) = Some ?ob2"
    using memcpy_record_8 by simp
  have lzo1: "lzo1x_decompress_safe ?e1 ?ob2 0 (8 + of_nat (length hc_lzor_prefix))
                (replicate 2048 0) 2048 = (LZO_E_INPUT_NOT_CONSUMED, scratch_36, 36)"
    using lzo_output_36_written
    by (simp add: example_env_def decoder_writes_def) (simp add: lzo_output_36_def)
  have lzo2: "lzo1x_decompress_safe ?e2 ?ob2 0 (8 + of_nat (length hc_lzor_prefix))
                (replicate 2048 0) 2048 = (- 4, replicate 2048 0, 0)"
    by (simp add: example_env_def decoder_writes_def)
  have scan: "lzor_scan ?e1 scratch_36 36 ?ob2 2048 ?tr
      = returns 0 (0x5A # drop 1 ?ob2) 1
         (?tr @ [Load32 TEMPBUF 0, Load32 TEMPBUF 4, Load32 TEMPBUF 8, Load32 TEMPBUF 12,
        Load32 TEMPBUF 16, Load32 TEMPBUF 20, Load32 TEMPBUF 24,
        TagFind TEMPBUF 28 8 1, RleDecode TEMPBUF 32 4 OUTBUF])"
    by (simp add: lzor_scan_def scan_scratch_36 lzor_decode_def)
       (simp add: example_env_def tag_find_gives_def decoder_writes_def)
  from lzor_input_not_consumed_is_not_fatal [OF fits memcpy_prefix_2048 cp2 lzo1 refl]
  have 1: "hc_wlan_data_unpack_lzor ?e1 (replicate 64 0) 8 8 (replicate 2048 0) 2048
             (Some (replicate 2048 0)) = lzor_scan ?e1 scratch_36 36 ?ob2 2048 ?tr"
    by simp
  from lzor_input_not_consumed_is_not_fatal [OF fits memcpy_prefix_2048 cp2 lzo2 refl]
  have 2: "hc_wlan_data_unpack_lzor ?e2 (replicate 64 0) 8 8 (replicate 2048 0) 2048
             (Some (replicate 2048 0)) = returns (- 4) ?ob2 2048 ?tr"
    by (simp add: LZO_E_INPUT_NOT_CONSUMED_def)
  show ?thesis
    unfolding 1 2 scan by (simp add: length_hc_lzor_prefix)
qed

text \<open>
  After the scan has left the loop on a magic at offset \<open>m\<close>, with \<^verbatim>\<open>needle\<close> at
  \<open>m + 4\<close>, the function is the call of the tag scanner for tag 1 on the scratch
  buffer from offset \<open>m + 4\<close> with the length \<open>templen - m - 4\<close> of \<^verbatim>\<open>size_t\<close>,
  followed by what the code does with its answer.
\<close>

lemma lzor_after_magic:
  assumes "\<not> outlen < inlen + of_nat (length hc_lzor_prefix)"
      and "memcpy outbuf 0 hc_lzor_prefix 0 (length hc_lzor_prefix) = Some outbuf1"
      and "memcpy outbuf1 (length hc_lzor_prefix) hc_buf inbuf (unat inlen) = Some outbuf2"
      and "lzo1x_decompress_safe e outbuf2 0 (inlen + of_nat (length hc_lzor_prefix)) tempbuf outlen
           = (ret, tempbuf', templen')"
      and "ret = 0 \<or> ret = LZO_E_INPUT_NOT_CONSUMED"
      and "scan_needle e tempbuf' templen' 0 = (probes, Found (m + 4))"
      and "tr = [Memcpy OUTBUF 0 LZOR_PREFIX 0 (length hc_lzor_prefix),
                 Memcpy OUTBUF (length hc_lzor_prefix) HC_BUF inbuf (unat inlen),
                 LzoDecompress OUTBUF 0 (inlen + of_nat (length hc_lzor_prefix)) TEMPBUF]
                @ probes @ [TagFind TEMPBUF (m + 4) (templen' - of_nat m - 4) 1]"
  shows "hc_wlan_data_unpack_lzor e hc_buf inbuf inlen outbuf outlen (Some tempbuf) =
     (case routerboot_tag_find e tempbuf' (m + 4) (templen' - of_nat m - 4) 1 of
        (ret, rle_ofs, rle_len) \<Rightarrow>
          if ret \<noteq> 0 then returns ret outbuf2 outlen tr
          else if templen' - of_nat m - 4 < ucast rle_len then returns (- EINVAL) outbuf2 outlen tr
          else (case routerboot_rle_decode e tempbuf' (m + 4 + unat rle_ofs) (ucast rle_len)
                       outbuf2 outlen of
                  (ret', outbuf', outlen') \<Rightarrow>
                    returns ret' outbuf' outlen'
                      (tr @ [RleDecode TEMPBUF (m + 4 + unat rle_ofs) (ucast rle_len) OUTBUF])))"
proof -
  have len: "templen' - of_nat (m + 4) = templen' - of_nat m - 4" by simp
  have run: "hc_wlan_data_unpack_lzor e hc_buf inbuf inlen outbuf outlen (Some tempbuf)
      = lzor_decode e tempbuf' templen' (m + 4) outbuf2 outlen
          ([Memcpy OUTBUF 0 LZOR_PREFIX 0 (length hc_lzor_prefix),
            Memcpy OUTBUF (length hc_lzor_prefix) HC_BUF inbuf (unat inlen),
            LzoDecompress OUTBUF 0 (inlen + of_nat (length hc_lzor_prefix)) TEMPBUF] @ probes)"
    using lzor_reaches_decompressor [OF assms(1-4)] assms(5,6)
    by (auto simp: lzor_scan_def)
  show ?thesis
    unfolding run by (simp add: lzor_decode_def Let_def assms(7) split_beta diff_diff_eq)
qed

text \<open>
  The \<^verbatim>\<open>size_t\<close> difference is the number \<open>templen - m - 4\<close> when the magic lies
  inside the decompressed data.
\<close>

lemma tail_length_in_range:
  fixes templen :: size_t
  assumes "m + 4 \<le> unat templen"
  shows "unat (templen - of_nat m - 4) = unat templen - m - 4"
proof -
  have "m + 4 < 2 ^ 32" using assms unsigned_less [of templen, where 'a = nat] by simp
  moreover have "unat (of_nat (m + 4) :: size_t) = (m + 4) mod 2 ^ LENGTH(32)"
    by (rule unat_of_nat)
  ultimately have u: "unat (of_nat (m + 4) :: size_t) = m + 4" by simp
  have "of_nat (m + 4) \<le> templen" using assms u by (simp add: word_le_nat_alt)
  then have "unat (templen - of_nat (m + 4)) = unat templen - unat (of_nat (m + 4) :: size_t)"
    by (rule unat_sub)
  with u show ?thesis by (simp add: diff_diff_eq)
qed

text \<open>
  C4. The claim is that the tag scanner is called on the scratch buffer from offset
  \<open>m + 4\<close> with a length that is exactly the decompressed length less \<open>m\<close> less 4.
  The scan can stop on a word that reaches over the end of the decompressed data (the
  slip shown under C1), and then \<open>m + 4\<close> is above the decompressed length. On the
  input of C1 the decompressed length is 30 and the magic is matched at \<open>m = 28\<close>:
  the claimed length is \<open>30 - 28 - 4 = - 2\<close>, and the code calls the tag scanner on the
  scratch buffer from offset 32 with the length \<open>0xFFFFFFFE\<close>, which reaches far
  behind the 2048 bytes of the buffer. The equation holds for every tag scanner and
  every run-length decoder: the value of the function is what follows from the answer
  of the scanner to exactly this call.
\<close>

theorem lzor_tag_scan_length_wraps:
  "hc_wlan_data_unpack_lzor
       (example_env 2048 tag_find rle (decoder_writes 0 lzo_output_30))
       (replicate 64 0) 8 8 (replicate 2048 0) 2048 (Some stale_scratch)
   = (case tag_find scratch_30 32 0xFFFFFFFE 1 of
        (ret, rle_ofs, rle_len) \<Rightarrow>
          if ret \<noteq> 0
          then returns ret (hc_lzor_prefix @ replicate 8 0 @ replicate 660 0) 2048
                 [Memcpy OUTBUF 0 LZOR_PREFIX 0 1380, Memcpy OUTBUF 1380 HC_BUF 8 8,
                  LzoDecompress OUTBUF 0 1388 TEMPBUF,
                  Load32 TEMPBUF 0, Load32 TEMPBUF 4, Load32 TEMPBUF 8, Load32 TEMPBUF 12,
                  Load32 TEMPBUF 16, Load32 TEMPBUF 20, Load32 TEMPBUF 24, Load32 TEMPBUF 28,
                  TagFind TEMPBUF 32 0xFFFFFFFE 1]
          else if 0xFFFFFFFE < (ucast rle_len :: size_t)
          then returns (- EINVAL) (hc_lzor_prefix @ replicate 8 0 @ replicate 660 0) 2048
                 [Memcpy OUTBUF 0 LZOR_PREFIX 0 1380, Memcpy OUTBUF 1380 HC_BUF 8 8,
                  LzoDecompress OUTBUF 0 1388 TEMPBUF,
                  Load32 TEMPBUF 0, Load32 TEMPBUF 4, Load32 TEMPBUF 8, Load32 TEMPBUF 12,
                  Load32 TEMPBUF 16, Load32 TEMPBUF 20, Load32 TEMPBUF 24, Load32 TEMPBUF 28,
                  TagFind TEMPBUF 32 0xFFFFFFFE 1]
          else (case rle scratch_30 (32 + unat rle_ofs) (ucast rle_len)
                       (hc_lzor_prefix @ replicate 8 0 @ replicate 660 0) 2048 of
                  (ret', outbuf', outlen') \<Rightarrow>
                    returns ret' outbuf' outlen'
                      [Memcpy OUTBUF 0 LZOR_PREFIX 0 1380, Memcpy OUTBUF 1380 HC_BUF 8 8,
                       LzoDecompress OUTBUF 0 1388 TEMPBUF,
                       Load32 TEMPBUF 0, Load32 TEMPBUF 4, Load32 TEMPBUF 8, Load32 TEMPBUF 12,
                       Load32 TEMPBUF 16, Load32 TEMPBUF 20, Load32 TEMPBUF 24,
                       Load32 TEMPBUF 28, TagFind TEMPBUF 32 0xFFFFFFFE 1,
                       RleDecode TEMPBUF (32 + unat rle_ofs) (ucast rle_len) OUTBUF]))
   \<and> load_u32 False scratch_30 28 = Some 0x00445245
   \<and> uint (0xFFFFFFFE :: size_t) = 4294967294
   \<and> (30 :: int) - 28 - 4 = - 2
   \<and> length scratch_30 = 2048"
proof -
  have a: "load_u32 False scratch_30 28 = Some 0x00445245"
    by (simp add: load_u32_def scratch_30_def word_of_bytes_def nth_append)
  have b: "uint (0xFFFFFFFE :: size_t) = 4294967294" by simp
  have c: "length scratch_30 = 2048" by (simp add: scratch_30_def)
  obtain ret rle_ofs rle_len where tf: "tag_find scratch_30 32 0xFFFFFFFE 1 = (ret, rle_ofs, rle_len)"
    by (cases "tag_find scratch_30 32 0xFFFFFFFE 1")
  obtain ret' outbuf' outlen' where
    r: "rle scratch_30 (32 + unat rle_ofs) (ucast rle_len)
          (hc_lzor_prefix @ replicate 8 0 @ replicate 660 0) 2048 = (ret', outbuf', outlen')"
    by (cases "rle scratch_30 (32 + unat rle_ofs) (ucast rle_len)
          (hc_lzor_prefix @ replicate 8 0 @ replicate 660 0) 2048")
  have d: "hc_wlan_data_unpack_lzor
       (example_env 2048 tag_find rle (decoder_writes 0 lzo_output_30))
       (replicate 64 0) 8 8 (replicate 2048 0) 2048 (Some stale_scratch)
     = lzor_decode (example_env 2048 tag_find rle (decoder_writes 0 lzo_output_30))
         scratch_30 30 32 (hc_lzor_prefix @ replicate 8 0 @ replicate 660 0) 2048
         [Memcpy OUTBUF 0 LZOR_PREFIX 0 1380, Memcpy OUTBUF 1380 HC_BUF 8 8,
          LzoDecompress OUTBUF 0 1388 TEMPBUF,
          Load32 TEMPBUF 0, Load32 TEMPBUF 4, Load32 TEMPBUF 8, Load32 TEMPBUF 12,
          Load32 TEMPBUF 16, Load32 TEMPBUF 20, Load32 TEMPBUF 24, Load32 TEMPBUF 28]"
    unfolding hc_wlan_data_unpack_lzor_def lzor_scan_def Let_def
    apply (simp add: length_hc_lzor_prefix memcpy_def)
    apply (simp add: example_env_def decoder_writes_def lzo_output_30_written
        length_lzo_output_30 scan_scratch_30 [unfolded example_env_def] length_hc_lzor_prefix)
    done
  have e: "lzor_decode (example_env 2048 tag_find rle (decoder_writes 0 lzo_output_30))
         scratch_30 30 32 ob 2048 tr0
     = (if ret \<noteq> 0 then returns ret ob 2048 (tr0 @ [TagFind TEMPBUF 32 0xFFFFFFFE 1])
        else if 0xFFFFFFFE < (ucast rle_len :: size_t)
        then returns (- EINVAL) ob 2048 (tr0 @ [TagFind TEMPBUF 32 0xFFFFFFFE 1])
        else (case rle scratch_30 (32 + unat rle_ofs) (ucast rle_len) ob 2048 of
               (ret', outbuf', outlen') \<Rightarrow>
                 returns ret' outbuf' outlen'
                   (tr0 @ [TagFind TEMPBUF 32 0xFFFFFFFE 1,
                           RleDecode TEMPBUF (32 + unat rle_ofs) (ucast rle_len) OUTBUF])))"
    for ob tr0
    using tf by (simp add: lzor_decode_def Let_def example_env_def minus_two_size_t)
  show ?thesis
    unfolding d e using a b c tf r by simp
qed

subsection \<open>The dispatch on the magic\<close>

text \<open>
  For a record that passes the bound check \<^verbatim>\<open>tofs + tlen > hc_buflen\<close> and whose
  first four bytes can be loaded from the blob, \<^verbatim>\<open>hc_wlan_data_unpack\<close> loads them as one
  32-bit word and goes one of three ways. On \<^verbatim>\<open>RB_MAGIC_LZOR\<close> it runs the LZOR
  unpacker, on \<^verbatim>\<open>RB_MAGIC_ERD\<close> the ERD unpacker, both on the record from its fifth
  byte with the length \<open>tlen - 4\<close> (a subtraction in \<^verbatim>\<open>size_t\<close>, which is the number
  \<open>tlen - 4\<close> for every record of four bytes or more). On any other word it calls the
  run-length decoder on the whole record, from its first byte and with the length
  \<open>tlen\<close>, writing to the output buffer, and returns what the decoder returns. The two
  magic numbers are different (they are labels of one \<^verbatim>\<open>switch\<close>).
\<close>

lemma unpack_three_ways:
  assumes "\<not> hc_buflen hc_buf < tofs + tlen"
      and "load_u32 (big_endian e) hc_buf (unat tofs) = Some magic"
      and "RB_MAGIC_LZOR e \<noteq> RB_MAGIC_ERD e"
  shows "(magic = RB_MAGIC_LZOR e \<longrightarrow>
            hc_wlan_data_unpack e hc_buf tofs tlen outbuf outlen kmalloc_res
            = after (Load32 HC_BUF (unat tofs))
                (hc_wlan_data_unpack_lzor e hc_buf (unat tofs + 4) (tlen - 4) outbuf outlen
                   kmalloc_res))
       \<and> (magic = RB_MAGIC_ERD e \<longrightarrow>
            hc_wlan_data_unpack e hc_buf tofs tlen outbuf outlen kmalloc_res
            = after (Load32 HC_BUF (unat tofs))
                (hc_wlan_data_unpack_erd e hc_buf (unat tofs + 4) (tlen - 4) outbuf outlen))
       \<and> (magic \<noteq> RB_MAGIC_LZOR e \<and> magic \<noteq> RB_MAGIC_ERD e \<longrightarrow>
            (case routerboot_rle_decode e hc_buf (unat tofs) tlen outbuf outlen of
               (ret, outbuf', outlen') \<Rightarrow>
                 hc_wlan_data_unpack e hc_buf tofs tlen outbuf outlen kmalloc_res
                 = returns ret outbuf' outlen'
                     [Load32 HC_BUF (unat tofs), RleDecode HC_BUF (unat tofs) tlen OUTBUF]))
       \<and> (4 \<le> unat tlen \<longrightarrow> unat (tlen - 4) = unat tlen - 4)"
proof -
  have "unat (tlen - 4) = unat tlen - 4" if "4 \<le> unat tlen"
  proof -
    from that have "(4 :: size_t) \<le> tlen" by (simp add: word_le_nat_alt)
    then have "unat (tlen - 4) = unat tlen - unat (4 :: size_t)" by (rule unat_sub)
    then show ?thesis by simp
  qed
  with assms show ?thesis
    by (auto simp: hc_wlan_data_unpack_def split: prod.splits)
qed

lemma unpack_three_ways_example:
  "hc_wlan_data_unpack
      (example_env 2048 (tag_find_gives 0 4 4) (decoder_writes 0 [0x5A]) (decoder_writes 0 []))
      blob_lzor_20 8 12 (replicate 2048 0) 2048 (Some (replicate 2048 0))
    = after (Load32 HC_BUF 8)
        (hc_wlan_data_unpack_lzor
           (example_env 2048 (tag_find_gives 0 4 4) (decoder_writes 0 [0x5A]) (decoder_writes 0 []))
           blob_lzor_20 12 8 (replicate 2048 0) 2048 (Some (replicate 2048 0)))
   \<and> hc_wlan_data_unpack
      (example_env 2048 (tag_find_gives 0 4 4) (decoder_writes 0 [0x5A]) (decoder_writes 0 []))
      blob_20 8 12 (replicate 2048 0) 2048 (Some (replicate 2048 0))
    = after (Load32 HC_BUF 8)
        (hc_wlan_data_unpack_erd
           (example_env 2048 (tag_find_gives 0 4 4) (decoder_writes 0 [0x5A]) (decoder_writes 0 []))
           blob_20 12 8 (replicate 2048 0) 2048)
   \<and> hc_wlan_data_unpack
      (example_env 2048 (tag_find_gives 0 4 4) (decoder_writes 0 [0x5A]) (decoder_writes 0 []))
      blob_raw_20 8 12 (replicate 2048 0) 2048 (Some (replicate 2048 0))
    = returns 0 (0x5A # replicate 2047 0) 1 [Load32 HC_BUF 8, RleDecode HC_BUF 8 12 OUTBUF]
   \<and> unat (12 - 4 :: size_t) = 12 - 4"
proof -
  let ?e = "example_env 2048 (tag_find_gives 0 4 4) (decoder_writes 0 [0x5A]) (decoder_writes 0 [])"
  have ne: "RB_MAGIC_LZOR ?e \<noteq> RB_MAGIC_ERD ?e" by (simp add: example_env_def)
  have inb1: "\<not> hc_buflen blob_lzor_20 < 8 + 12" by (simp add: hc_buflen_def blob_lzor_20_def)
  have inb2: "\<not> hc_buflen blob_20 < 8 + 12" by (simp add: hc_buflen_def blob_20_def)
  have inb3: "\<not> hc_buflen blob_raw_20 < 8 + 12" by (simp add: hc_buflen_def blob_raw_20_def)
  have ld1: "load_u32 (big_endian ?e) blob_lzor_20 (unat (8 :: size_t)) = Some (RB_MAGIC_LZOR ?e)"
    by (simp add: example_env_def load_u32_def blob_lzor_20_def word_of_bytes_def)
  have ld2: "load_u32 (big_endian ?e) blob_20 (unat (8 :: size_t)) = Some (RB_MAGIC_ERD ?e)"
    by (simp add: example_env_def load_u32_def blob_20_def word_of_bytes_def)
  have ld3: "load_u32 (big_endian ?e) blob_raw_20 (unat (8 :: size_t)) = Some 0x04030201"
    by (simp add: example_env_def load_u32_def blob_raw_20_def word_of_bytes_def)
  have other: "(0x04030201 :: u32) \<noteq> RB_MAGIC_LZOR ?e \<and> (0x04030201 :: u32) \<noteq> RB_MAGIC_ERD ?e"
    by (simp add: example_env_def)
  have rle: "routerboot_rle_decode ?e blob_raw_20 (unat (8 :: size_t)) 12 (replicate 2048 0) 2048
             = (0, 0x5A # replicate 2047 0, 1)"
    by (simp add: example_env_def decoder_writes_def)
  have len: "4 \<le> unat (12 :: size_t)" by simp
  from unpack_three_ways [OF inb1 ld1 ne, of "replicate 2048 0" 2048 "Some (replicate 2048 0)"]
  have 1: "hc_wlan_data_unpack ?e blob_lzor_20 8 12 (replicate 2048 0) 2048 (Some (replicate 2048 0))
    = after (Load32 HC_BUF 8)
        (hc_wlan_data_unpack_lzor ?e blob_lzor_20 12 8 (replicate 2048 0) 2048
           (Some (replicate 2048 0)))"
    by simp
  from unpack_three_ways [OF inb2 ld2 ne, of "replicate 2048 0" 2048 "Some (replicate 2048 0)"]
  have 2: "hc_wlan_data_unpack ?e blob_20 8 12 (replicate 2048 0) 2048 (Some (replicate 2048 0))
    = after (Load32 HC_BUF 8)
        (hc_wlan_data_unpack_erd ?e blob_20 12 8 (replicate 2048 0) 2048)"
    using ne by simp
  from unpack_three_ways [OF inb3 ld3 ne, of "replicate 2048 0" 2048 "Some (replicate 2048 0)"]
  have 3: "hc_wlan_data_unpack ?e blob_raw_20 8 12 (replicate 2048 0) 2048 (Some (replicate 2048 0))
    = returns 0 (0x5A # replicate 2047 0) 1 [Load32 HC_BUF 8, RleDecode HC_BUF 8 12 OUTBUF]"
    using other rle by simp
  from unpack_three_ways [OF inb3 ld3 ne] len
  have 4: "unat (12 - 4 :: size_t) = 12 - 4" by simp
  from 1 2 3 4 show ?thesis by blast
qed

text \<open>
  C3. The claim is made for every record that lies inside the blob: its first four
  bytes are read as the magic, and the LZOR or ERD unpacker gets the record less these
  four bytes. The code does not test that the record has four bytes (the caller only
  keeps the length 0 out). Here the record is the two bytes \<^verbatim>\<open>E\<close>, \<^verbatim>\<open>R\<close> at offset 8
  of a blob of 16 bytes, and it passes the bound check. The code loads the four bytes
  from offset 8, two of which lie behind the record, takes them for the ERD magic, and
  runs the ERD unpacker from offset 12, which is two bytes behind the end of the
  record, with the length \<open>2 - 4 = 0xFFFFFFFE\<close>: the tag scanner is called on that
  region. The equation holds for every tag scanner and every decompressor.
\<close>

theorem unpack_short_record_underflow:
  "length blob_short_16 = 16
   \<and> \<not> hc_buflen blob_short_16 < 8 + 2
   \<and> hc_wlan_data_unpack (example_env art tag_find rle lzo) blob_short_16 8 2 outbuf outlen
        kmalloc_res
     = (case tag_find blob_short_16 12 0xFFFFFFFE 1 of
          (ret, lzo_ofs, lzo_len) \<Rightarrow>
            if ret \<noteq> 0
            then returns ret outbuf outlen [Load32 HC_BUF 8, TagFind HC_BUF 12 0xFFFFFFFE 1]
            else if 0xFFFFFFFE < (ucast lzo_len :: size_t)
            then returns (- EINVAL) outbuf outlen
                   [Load32 HC_BUF 8, TagFind HC_BUF 12 0xFFFFFFFE 1]
            else (case lzo blob_short_16 (12 + unat lzo_ofs) (ucast lzo_len) outbuf outlen of
                    (ret', outbuf', outlen') \<Rightarrow>
                      returns ret' outbuf' outlen'
                        [Load32 HC_BUF 8, TagFind HC_BUF 12 0xFFFFFFFE 1,
                         LzoDecompress HC_BUF (12 + unat lzo_ofs) (ucast lzo_len) OUTBUF]))"
proof -
  have a: "length blob_short_16 = 16" by (simp add: blob_short_16_def)
  have b: "\<not> hc_buflen blob_short_16 < 8 + 2" by (simp add: hc_buflen_def blob_short_16_def)
  have ld: "load_u32 False blob_short_16 8 = Some 0x00445245"
    by (simp add: load_u32_def blob_short_16_def word_of_bytes_def)
  obtain ret lzo_ofs lzo_len where tf: "tag_find blob_short_16 12 0xFFFFFFFE 1 = (ret, lzo_ofs, lzo_len)"
    by (cases "tag_find blob_short_16 12 0xFFFFFFFE 1")
  obtain ret' outbuf' outlen' where
    l: "lzo blob_short_16 (12 + unat lzo_ofs) (ucast lzo_len) outbuf outlen = (ret', outbuf', outlen')"
    by (cases "lzo blob_short_16 (12 + unat lzo_ofs) (ucast lzo_len) outbuf outlen")
  have c: "hc_wlan_data_unpack (example_env art tag_find rle lzo) blob_short_16 8 2 outbuf outlen
        kmalloc_res
     = after (Load32 HC_BUF 8)
         (hc_wlan_data_unpack_erd (example_env art tag_find rle lzo) blob_short_16 12 0xFFFFFFFE
            outbuf outlen)"
    using b ld by (simp add: hc_wlan_data_unpack_def example_env_def minus_two_size_t)
  show ?thesis
    unfolding c using a b tf l
    by (simp add: hc_wlan_data_unpack_erd_def example_env_def after_def returns_def)
qed

subsection \<open>Reading the calibration file\<close>

text \<open>
  C10. When the stored length of the calibration record is above \<^verbatim>\<open>RB_ART_SIZE\<close>, the
  read returns \<^verbatim>\<open>-EFBIG\<close> with an empty trace: no buffer is allocated and the unpacker
  is not called, whatever the record holds.
\<close>

theorem bin_read_source_too_large:
  assumes "RB_ART_SIZE e < ucast (w_pld_len hc_wattr)"
  shows "hc_wlan_data_bin_read e hc_buf hc_wattr kmalloc_out kmalloc_tmp off count
         = read_returns (Ret (- EFBIG)) [] []"
proof -
  from assms have "w_pld_len hc_wattr \<noteq> 0" by auto
  with assms show ?thesis by (simp add: hc_wlan_data_bin_read_def Let_def)
qed

theorem bin_read_source_too_large_witness:
  "RB_ART_SIZE (example_env 0x1000 (tag_find_gives 0 4 4) (decoder_writes 0 [0x5A])
       (decoder_writes 0 [])) < ucast (w_pld_len \<lparr>w_pld_ofs = 8, w_pld_len = 0x2000\<rparr>)
   \<and> hc_wlan_data_bin_read
       (example_env 0x1000 (tag_find_gives 0 4 4) (decoder_writes 0 [0x5A]) (decoder_writes 0 []))
       (replicate 0x3000 0) \<lparr>w_pld_ofs = 8, w_pld_len = 0x2000\<rparr>
       (Some (replicate 0x1000 0)) (Some (replicate 0x1000 0)) 0 16
     = read_returns (Ret (- EFBIG)) [] []"
proof -
  have h: "RB_ART_SIZE (example_env 0x1000 (tag_find_gives 0 4 4) (decoder_writes 0 [0x5A])
       (decoder_writes 0 [])) < ucast (w_pld_len \<lparr>w_pld_ofs = 8, w_pld_len = 0x2000\<rparr>)"
    by (simp add: example_env_def)
  show ?thesis using h bin_read_source_too_large [OF h] by simp
qed

text \<open>Signed 64-bit offsets and 32-bit counts.\<close>

lemma sint_nonneg_uint:
  fixes w :: "'a::len word"
  assumes "0 \<le> sint w"
  shows "sint w = uint w"
proof -
  have "sint w < 2 ^ (LENGTH('a) - 1)" by (rule sint_lt)
  also have "(2::int) ^ (LENGTH('a) - 1) \<le> 2 ^ LENGTH('a)" by (rule power_increasing) simp_all
  finally have "sint w < 2 ^ LENGTH('a)" .
  with assms have "take_bit LENGTH('a) (sint w) = sint w" by (simp add: take_bit_int_eq_self)
  then show ?thesis by (simp add: uint_sint)
qed

lemma uint_small_sint:
  fixes w :: "'a::len word"
  assumes "uint w < 2 ^ (LENGTH('a) - 1)"
  shows "sint w = uint w"
proof -
  have "- (2 ^ (LENGTH('a) - Suc 0)) \<le> uint w"
    by (rule order_trans [of _ 0]) simp_all
  with assms show ?thesis by (simp add: sint_uint signed_take_bit_int_eq_self)
qed

lemma uint_ucast_size_loff: "uint (ucast (c :: size_t) :: loff_t) = uint c"
  by (simp add: uint_up_ucast is_up)

lemma off_plus_count:
  fixes off :: loff_t and count :: size_t
  assumes "0 \<le> sint off" and "sint off + uint count < 2 ^ 63"
  shows "sint (off + ucast count) = sint off + uint count"
proof -
  have o: "sint off = uint off" using assms(1) by (rule sint_nonneg_uint)
  have "uint (off + ucast count) = (uint off + uint count) mod 2 ^ 64"
    by (simp add: uint_word_ariths uint_ucast_size_loff)
  also have "\<dots> = uint off + uint count"
    using assms(2) o by (simp add: mod_pos_pos_trivial)
  finally have u: "uint (off + ucast count) = uint off + uint count" .
  with assms(2) o have "uint (off + ucast count) < 2 ^ (LENGTH(64) - 1)" by simp
  then have "sint (off + ucast count) = uint (off + ucast count)" by (rule uint_small_sint)
  with u o show ?thesis by simp
qed

lemma clamp_count:
  fixes off :: loff_t and outlen :: size_t
  assumes "0 \<le> sint off" and "sint off < uint outlen"
  shows "unat (ucast ((ucast outlen :: loff_t) - off) :: size_t) = unat outlen - nat (sint off)"
proof -
  have o: "sint off = uint off" using assms(1) by (rule sint_nonneg_uint)
  have l: "uint (ucast outlen :: loff_t) = uint outlen" by (rule uint_ucast_size_loff)
  have u2: "unat (ucast outlen :: loff_t) = unat outlen"
    using l by (metis nat_uint_eq)
  have u3: "nat (sint off) = unat off" using o by simp
  from assms(2) o l have le: "off \<le> ucast outlen" by (simp add: word_le_def)
  then have "unat ((ucast outlen :: loff_t) - off) = unat (ucast outlen :: loff_t) - unat off"
    by (rule unat_sub)
  then have d: "unat ((ucast outlen :: loff_t) - off) = unat outlen - nat (sint off)"
    by (simp only: u2 u3)
  have b: "unat outlen < 2 ^ LENGTH(32)" by (rule unsigned_less)
  have "unat outlen - nat (sint off) \<le> unat outlen" by (rule diff_le_self)
  from this b have lt: "unat outlen - nat (sint off) < 2 ^ LENGTH(32)" by (rule le_less_trans)
  have "unat (ucast ((ucast outlen :: loff_t) - off) :: size_t)
        = take_bit LENGTH(32) (unat ((ucast outlen :: loff_t) - off))"
    by (rule unsigned_ucast_eq)
  also have "\<dots> = take_bit LENGTH(32) (unat outlen - nat (sint off))" by (simp only: d)
  also have "\<dots> = unat outlen - nat (sint off)" using lt by (rule take_bit_nat_eq_self)
  finally show ?thesis .
qed

text \<open>
  C8. After a decode that has returned 0 and left \<open>L\<close> bytes in the output buffer, a
  read of \<open>count\<close> bytes at the offset \<open>pos\<close> returns 0 and no bytes when \<open>L \<le> pos\<close>,
  and otherwise returns \<open>min count (L - pos)\<close> and that many bytes, which are the
  bytes of the output buffer from \<open>pos\<close> on and lie among its first \<open>L\<close> bytes. The
  offset and the count are what the file layer can pass: the offset is not negative and
  \<open>off + count\<close> does not overflow \<^verbatim>\<open>loff_t\<close>. The decoder has kept to the buffer
  (\<open>L\<close> is at most its size) and \<open>L\<close> fits \<^verbatim>\<open>ssize_t\<close>.
\<close>

theorem bin_read_window:
  fixes off :: loff_t and count :: size_t
  assumes len: "w_pld_len hc_wattr \<noteq> 0"
      and fits: "\<not> RB_ART_SIZE e < ucast (w_pld_len hc_wattr)"
      and unpack: "hc_wlan_data_unpack e hc_buf (ucast (w_pld_ofs hc_wattr))
                     (ucast (w_pld_len hc_wattr)) outbuf (RB_ART_SIZE e) kmalloc_tmp = r"
      and ok: "r_ret r = Ret 0"
      and L: "L = unat (r_outlen r)" and inside: "L \<le> length (r_outbuf r)"
      and small: "L < 2 ^ 31"
      and off: "0 \<le> sint off" and sum: "sint off + uint count < 2 ^ 63"
      and pos: "pos = nat (sint off)"
  shows "hc_wlan_data_bin_read e hc_buf hc_wattr (Some outbuf) kmalloc_tmp off count =
     (if L \<le> pos then read_returns (Ret 0) [] (r_trace r)
      else read_returns (Ret (int (min (unat count) (L - pos))))
             (take (min (unat count) (L - pos)) (drop pos (take L (r_outbuf r))))
             (r_trace r @ [Memcpy USER_BUF 0 OUTBUF pos (min (unat count) (L - pos))]))"
proof -
  have o_int: "sint off = int pos" using off pos by simp
  have L_int: "uint (r_outlen r) = int L" by (simp only: L uint_nat)
  have cnt: "uint count = int (unat count)" by (rule uint_nat)
  show ?thesis
  proof (cases "L \<le> pos")
    case True
    then have "uint (r_outlen r) \<le> sint off" using o_int L_int by simp
    with len fits unpack ok True show ?thesis
      by (simp add: hc_wlan_data_bin_read_def Let_def)
  next
    case False
    then have lt: "\<not> uint (r_outlen r) \<le> sint off" using o_int L_int by simp
    define n where "n = min (unat count) (L - pos)"
    define c' :: size_t where
      "c' = (if uint (r_outlen r) < sint (off + ucast count)
             then ucast ((ucast (r_outlen r) :: loff_t) - off) else count)"
    have s: "sint (off + ucast count) = sint off + uint count"
      using off sum by (rule off_plus_count)
    have cn: "unat c' = n"
    proof (cases "uint (r_outlen r) < sint (off + ucast count)")
      case True
      from lt have "sint off < uint (r_outlen r)" by simp
      with off have "unat (ucast ((ucast (r_outlen r) :: loff_t) - off) :: size_t)
                     = unat (r_outlen r) - nat (sint off)" by (rule clamp_count)
      with True have 1: "unat c' = L - pos" by (simp add: c'_def L pos)
      from True s o_int L_int cnt have "int L < int pos + int (unat count)" by linarith
      then have "L - pos \<le> unat count" by linarith
      with 1 show ?thesis by (simp add: n_def)
    next
      case ge: False
      then have 1: "unat c' = unat count" by (simp add: c'_def)
      from ge s o_int L_int cnt have "int pos + int (unat count) \<le> int L" by linarith
      then have "unat count \<le> L - pos" by linarith
      with 1 show ?thesis by (simp add: n_def)
    qed
    have n_le: "pos + n \<le> L" using False by (simp add: n_def)
    with inside have rng: "nat (sint off) + unat c' \<le> length (r_outbuf r)"
      by (simp add: cn pos)
    have "uint c' = int n" by (simp only: uint_nat cn)
    moreover have "int n < 2 ^ (LENGTH(32) - 1)" using n_le small by simp
    ultimately have sc: "sint c' = int n" by (simp add: uint_small_sint)
    have "drop pos (take L (r_outbuf r)) = take (L - pos) (drop pos (r_outbuf r))"
      by (rule drop_take)
    then have slice: "take n (drop pos (take L (r_outbuf r))) = take n (drop pos (r_outbuf r))"
      using n_le by (simp add: min_def)
    have "hc_wlan_data_bin_read e hc_buf hc_wattr (Some outbuf) kmalloc_tmp off count
          = read_returns (Ret (sint c'))
              (take (unat c') (drop (nat (sint off)) (r_outbuf r)))
              (r_trace r @ [Memcpy USER_BUF 0 OUTBUF (nat (sint off)) (unat c')])"
      using len fits unpack ok lt off rng
      by (simp add: hc_wlan_data_bin_read_def Let_def c'_def)
    with False show ?thesis by (simp add: sc cn slice pos [symmetric] n_def [symmetric])
  qed
qed

theorem bin_read_window_witness:
  "hc_wlan_data_bin_read
      (example_env 2048 (tag_find_gives 0 4 4) (decoder_writes 0 [1, 2, 3, 4, 5, 6, 7, 8, 9, 10])
         (decoder_writes 0 []))
      blob_raw_20 \<lparr>w_pld_ofs = 8, w_pld_len = 12\<rparr> (Some (replicate 2048 0)) None 4 16
    = read_returns (Ret 6) [5, 6, 7, 8, 9, 10]
        [Load32 HC_BUF 8, RleDecode HC_BUF 8 12 OUTBUF, Memcpy USER_BUF 0 OUTBUF 4 6]
   \<and> hc_wlan_data_bin_read
      (example_env 2048 (tag_find_gives 0 4 4) (decoder_writes 0 [1, 2, 3, 4, 5, 6, 7, 8, 9, 10])
         (decoder_writes 0 []))
      blob_raw_20 \<lparr>w_pld_ofs = 8, w_pld_len = 12\<rparr> (Some (replicate 2048 0)) None 10 16
    = read_returns (Ret 0) [] [Load32 HC_BUF 8, RleDecode HC_BUF 8 12 OUTBUF]
   \<and> hc_wlan_data_bin_read
      (example_env 2048 (tag_find_gives 0 4 4) (decoder_writes 0 [1, 2, 3, 4, 5, 6, 7, 8, 9, 10])
         (decoder_writes 0 []))
      blob_raw_20 \<lparr>w_pld_ofs = 8, w_pld_len = 12\<rparr> (Some (replicate 2048 0)) None 2 3
    = read_returns (Ret 3) [3, 4, 5]
        [Load32 HC_BUF 8, RleDecode HC_BUF 8 12 OUTBUF, Memcpy USER_BUF 0 OUTBUF 2 3]"
proof -
  let ?e = "example_env 2048 (tag_find_gives 0 4 4)
              (decoder_writes 0 [1, 2, 3, 4, 5, 6, 7, 8, 9, 10]) (decoder_writes 0 [])"
  let ?w = "\<lparr>w_pld_ofs = 8, w_pld_len = 12\<rparr>"
  let ?r = "returns 0 ([1, 2, 3, 4, 5, 6, 7, 8, 9, 10] @ replicate 2038 0) 10
              [Load32 HC_BUF 8, RleDecode HC_BUF 8 12 OUTBUF]"
  have len: "w_pld_len ?w \<noteq> 0" by simp
  have fits: "\<not> RB_ART_SIZE ?e < ucast (w_pld_len ?w)" by (simp add: example_env_def)
  have unpack: "hc_wlan_data_unpack ?e blob_raw_20 (ucast (w_pld_ofs ?w)) (ucast (w_pld_len ?w))
                  (replicate 2048 0) (RB_ART_SIZE ?e) None = ?r"
    by (simp add: hc_wlan_data_unpack_def hc_buflen_def blob_raw_20_def load_u32_def
        word_of_bytes_def example_env_def decoder_writes_def)
  have ok: "r_ret ?r = Ret 0" by simp
  have L: "10 = unat (r_outlen ?r)" by simp
  have inside: "10 \<le> length (r_outbuf ?r)" by simp
  have small: "(10 :: nat) < 2 ^ 31" by simp
  have off4: "0 \<le> sint (4 :: loff_t)" and sum4: "sint (4 :: loff_t) + uint (16 :: size_t) < 2 ^ 63"
    and pos4: "4 = nat (sint (4 :: loff_t))" by simp_all
  have off10: "0 \<le> sint (10 :: loff_t)"
    and sum10: "sint (10 :: loff_t) + uint (16 :: size_t) < 2 ^ 63"
    and pos10: "10 = nat (sint (10 :: loff_t))" by simp_all
  have off2: "0 \<le> sint (2 :: loff_t)" and sum2: "sint (2 :: loff_t) + uint (3 :: size_t) < 2 ^ 63"
    and pos2: "2 = nat (sint (2 :: loff_t))" by simp_all
  have 1: "hc_wlan_data_bin_read ?e blob_raw_20 ?w (Some (replicate 2048 0)) None 4 16
    = read_returns (Ret 6) [5, 6, 7, 8, 9, 10]
        [Load32 HC_BUF 8, RleDecode HC_BUF 8 12 OUTBUF, Memcpy USER_BUF 0 OUTBUF 4 6]"
    using bin_read_window [OF len fits unpack ok L inside small off4 sum4 pos4] by simp
  have 2: "hc_wlan_data_bin_read ?e blob_raw_20 ?w (Some (replicate 2048 0)) None 10 16
    = read_returns (Ret 0) [] [Load32 HC_BUF 8, RleDecode HC_BUF 8 12 OUTBUF]"
    using bin_read_window [OF len fits unpack ok L inside small off10 sum10 pos10] by simp
  have 3: "hc_wlan_data_bin_read ?e blob_raw_20 ?w (Some (replicate 2048 0)) None 2 3
    = read_returns (Ret 3) [3, 4, 5]
        [Load32 HC_BUF 8, RleDecode HC_BUF 8 12 OUTBUF, Memcpy USER_BUF 0 OUTBUF 2 3]"
    using bin_read_window [OF len fits unpack ok L inside small off2 sum2 pos2] by simp
  from 1 2 3 show ?thesis by blast
qed

subsection \<open>Attributes whose tag is absent or empty\<close>

lemma locate_tags_length: "length (fst (locate_tags e hc_buf as w)) = length as"
  by (induction as arbitrary: w) (simp_all add: split_beta)

lemma locate_tags_nth:
  assumes "i < length as"
      and "routerboot_tag_find e hc_buf 4 (hc_buflen hc_buf - 4) (tag_id (as ! i)) = (ret, ofs, len)"
  shows "fst (locate_tags e hc_buf as w) ! i =
           (if ret \<noteq> 0 then (as ! i)\<lparr>pld_ofs := 0, pld_len := 0\<rparr>
            else (as ! i)\<lparr>pld_ofs := ofs + 4, pld_len := len\<rparr>)"
  using assms
proof (induction as arbitrary: i w)
  case Nil
  then show ?case by simp
next
  case (Cons a as)
  show ?case
  proof (cases i)
    case 0
    with Cons.prems show ?thesis by (simp add: split_beta)
  next
    case (Suc k)
    with Cons.prems have k: "k < length as"
      and tf: "routerboot_tag_find e hc_buf 4 (hc_buflen hc_buf - 4) (tag_id (as ! k)) = (ret, ofs, len)"
      by simp_all
    from Cons.IH [OF k tf] Suc show ?thesis by (simp add: split_beta)
  qed
qed

lemma locate_tags_wlan_unset:
  assumes "routerboot_tag_find e hc_buf 4 (hc_buflen hc_buf - 4) RB_ID_WLAN_DATA = (ret, ofs, len)"
      and "ret \<noteq> 0 \<or> len = 0"
  shows "fst (snd (locate_tags e hc_buf as w)) = w"
  using assms by (induction as arbitrary: w) (auto simp: split_beta)

lemma locate_tags_wlan_keep:
  assumes "routerboot_tag_find e hc_buf 4 (hc_buflen hc_buf - 4) RB_ID_WLAN_DATA = (0, ofs, len)"
  shows "fst (snd (locate_tags e hc_buf as \<lparr>w_pld_ofs = ofs + 4, w_pld_len = len\<rparr>))
         = \<lparr>w_pld_ofs = ofs + 4, w_pld_len = len\<rparr>"
  using assms by (induction as) (auto simp: split_beta)

lemma locate_tags_wlan_set:
  assumes "routerboot_tag_find e hc_buf 4 (hc_buflen hc_buf - 4) RB_ID_WLAN_DATA = (0, ofs, len)"
      and "len \<noteq> 0" and "RB_ID_WLAN_DATA \<in> tag_id ` set as"
  shows "fst (snd (locate_tags e hc_buf as w)) = \<lparr>w_pld_ofs = ofs + 4, w_pld_len = len\<rparr>"
  using assms
proof (induction as arbitrary: w)
  case Nil
  then show ?case by simp
next
  case (Cons a as)
  show ?case
  proof (cases "tag_id a = RB_ID_WLAN_DATA")
    case True
    with Cons.prems locate_tags_wlan_keep [OF Cons.prems(1), of as] show ?thesis
      by (simp add: split_beta)
  next
    case False
    with Cons.prems have "RB_ID_WLAN_DATA \<in> tag_id ` set as" by auto
    from Cons.IH [OF Cons.prems(1,2) this] False show ?thesis
      by (simp add: split_beta)
  qed
qed

lemma hc_attrs_has_wlan: "RB_ID_WLAN_DATA \<in> tag_id ` set hc_attrs"
  by (simp add: hc_attrs_def mk_attr_def)

text \<open>
  C9. Take the table as \<^verbatim>\<open>rb_hardconfig_init\<close> leaves it. For an entry whose tag the
  scanner does not find, or finds with length 0, \<^verbatim>\<open>hc_attr_show\<close> returns \<^verbatim>\<open>-ENOENT\<close>
  with no output and without calling the renderer; when the entry is the calibration
  tag, the read of the calibration file returns \<^verbatim>\<open>-ENOENT\<close> as well, without calling
  the unpacker. This does not reach the other entries: every entry whose tag is found
  with a length other than 0 is shown by its renderer, on its own payload, and a
  calibration tag found with a length other than 0 is recorded for the calibration file.
\<close>

theorem absent_or_empty_is_enoent:
  assumes i: "i < length hc_attrs"
      and tf: "routerboot_tag_find e hc_buf 4 (hc_buflen hc_buf - 4) (tag_id (hc_attrs ! i))
               = (ret, ofs, len)"
      and absent: "ret \<noteq> 0 \<or> len = 0"
  shows "hc_attr_show e hc_buf (located_attrs e hc_buf ! i)
           = \<lparr>s_ret = Ret (- ENOENT), s_text = [], s_trace = []\<rparr>
       \<and> (tag_id (hc_attrs ! i) = RB_ID_WLAN_DATA \<longrightarrow>
            hc_wlan_data_bin_read e hc_buf (located_wlan_attr e hc_buf) kmalloc_out kmalloc_tmp
              off count = read_returns (Ret (- ENOENT)) [] [])
       \<and> (\<forall>j ofs' len' f.
             j < length hc_attrs
             \<and> routerboot_tag_find e hc_buf 4 (hc_buflen hc_buf - 4) (tag_id (hc_attrs ! j))
                 = (0, ofs', len')
             \<and> len' \<noteq> 0 \<and> tshow (hc_attrs ! j) = Some f \<longrightarrow>
             hc_attr_show e hc_buf (located_attrs e hc_buf ! j)
             = (case call_tshow e f hc_buf (unat (ofs' + 4)) len' of
                  (n, txt) \<Rightarrow>
                    \<lparr>s_ret = Ret n, s_text = txt, s_trace = [Tshow (unat (ofs' + 4)) len']\<rparr>))
       \<and> (\<forall>ofs' len'.
             routerboot_tag_find e hc_buf 4 (hc_buflen hc_buf - 4) RB_ID_WLAN_DATA = (0, ofs', len')
             \<and> len' \<noteq> 0 \<longrightarrow>
             located_wlan_attr e hc_buf = \<lparr>w_pld_ofs = ofs' + 4, w_pld_len = len'\<rparr>)"
proof -
  from locate_tags_nth [OF i tf] absent
  have "pld_len (located_attrs e hc_buf ! i) = 0"
    by (auto simp: located_attrs_def)
  then have a: "hc_attr_show e hc_buf (located_attrs e hc_buf ! i)
           = \<lparr>s_ret = Ret (- ENOENT), s_text = [], s_trace = []\<rparr>"
    by (simp add: hc_attr_show_def)
  have b: "hc_wlan_data_bin_read e hc_buf (located_wlan_attr e hc_buf) kmalloc_out kmalloc_tmp
              off count = read_returns (Ret (- ENOENT)) [] []"
    if "tag_id (hc_attrs ! i) = RB_ID_WLAN_DATA"
  proof -
    from tf that have "routerboot_tag_find e hc_buf 4 (hc_buflen hc_buf - 4) RB_ID_WLAN_DATA
               = (ret, ofs, len)" by simp
    from locate_tags_wlan_unset [OF this absent]
    have "w_pld_len (located_wlan_attr e hc_buf) = 0" by (simp add: located_wlan_attr_def)
    then show ?thesis by (simp add: hc_wlan_data_bin_read_def)
  qed
  have c: "hc_attr_show e hc_buf (located_attrs e hc_buf ! j)
             = (case call_tshow e f hc_buf (unat (ofs' + 4)) len' of
                  (n, txt) \<Rightarrow>
                    \<lparr>s_ret = Ret n, s_text = txt, s_trace = [Tshow (unat (ofs' + 4)) len']\<rparr>)"
    if "j < length hc_attrs"
      and "routerboot_tag_find e hc_buf 4 (hc_buflen hc_buf - 4) (tag_id (hc_attrs ! j))
                 = (0, ofs', len')"
      and "len' \<noteq> 0" and "tshow (hc_attrs ! j) = Some f" for j ofs' len' f
  proof -
    from locate_tags_nth [OF that(1,2)]
    have "located_attrs e hc_buf ! j = (hc_attrs ! j)\<lparr>pld_ofs := ofs' + 4, pld_len := len'\<rparr>"
      by (simp add: located_attrs_def)
    with that(3,4) show ?thesis by (simp add: hc_attr_show_def)
  qed
  have d: "located_wlan_attr e hc_buf = \<lparr>w_pld_ofs = ofs' + 4, w_pld_len = len'\<rparr>"
    if "routerboot_tag_find e hc_buf 4 (hc_buflen hc_buf - 4) RB_ID_WLAN_DATA = (0, ofs', len')"
      and "len' \<noteq> 0" for ofs' len'
    using locate_tags_wlan_set [OF that hc_attrs_has_wlan] by (simp add: located_wlan_attr_def)
  from a b c d show ?thesis by blast
qed

theorem absent_or_empty_is_enoent_witness:
  "hc_attr_show
      (example_env 2048 (tag_find_only 0x05 8 8) (decoder_writes 0 []) (decoder_writes 0 []))
      blob_20
      (located_attrs
         (example_env 2048 (tag_find_only 0x05 8 8) (decoder_writes 0 []) (decoder_writes 0 []))
         blob_20 ! 0)
    = \<lparr>s_ret = Ret (- ENOENT), s_text = [], s_trace = []\<rparr>
   \<and> hc_attr_show
      (example_env 2048 (tag_find_only 0x05 8 8) (decoder_writes 0 []) (decoder_writes 0 []))
      blob_20
      (located_attrs
         (example_env 2048 (tag_find_only 0x05 8 8) (decoder_writes 0 []) (decoder_writes 0 []))
         blob_20 ! 2)
    = \<lparr>s_ret = Ret 2, s_text = ''ok'', s_trace = [Tshow 12 8]\<rparr>
   \<and> hc_wlan_data_bin_read
      (example_env 2048 (tag_find_only RB_ID_WLAN_DATA 4 0) (decoder_writes 0 [])
         (decoder_writes 0 []))
      blob_20
      (located_wlan_attr
         (example_env 2048 (tag_find_only RB_ID_WLAN_DATA 4 0) (decoder_writes 0 [])
            (decoder_writes 0 []))
         blob_20)
      (Some (replicate 2048 0)) None 0 16
    = read_returns (Ret (- ENOENT)) [] []"
proof -
  let ?e = "example_env 2048 (tag_find_only 0x05 8 8) (decoder_writes 0 []) (decoder_writes 0 [])"
  let ?e' = "example_env 2048 (tag_find_only RB_ID_WLAN_DATA 4 0) (decoder_writes 0 [])
               (decoder_writes 0 [])"
  have i0: "0 < length hc_attrs" and i1: "2 < length hc_attrs" and i8: "8 < length hc_attrs"
    by (simp_all add: hc_attrs_def)
  have id0: "tag_id (hc_attrs ! 0) = 0x03" and id1: "tag_id (hc_attrs ! 2) = 0x05"
    and id8: "tag_id (hc_attrs ! 8) = RB_ID_WLAN_DATA"
    and f1: "tshow (hc_attrs ! 2) = Some Routerboot_tag_show_string"
    by (simp_all add: hc_attrs_def mk_attr_def)
  have tf0: "routerboot_tag_find ?e blob_20 4 (hc_buflen blob_20 - 4) (tag_id (hc_attrs ! 0))
             = (- ENOENT, 0, 0)"
    by (simp add: id0 example_env_def tag_find_only_def)
  have tf1: "routerboot_tag_find ?e blob_20 4 (hc_buflen blob_20 - 4) (tag_id (hc_attrs ! 2))
             = (0, 8, 8)"
    by (simp add: id1 example_env_def tag_find_only_def)
  have tf8: "routerboot_tag_find ?e' blob_20 4 (hc_buflen blob_20 - 4) (tag_id (hc_attrs ! 8))
             = (0, 4, 0)"
    by (simp add: id8 example_env_def tag_find_only_def)
  have absent0: "- ENOENT \<noteq> 0 \<or> (0 :: u16) = 0" by simp
  have empty8: "(0 :: int) \<noteq> 0 \<or> (0 :: u16) = 0" by simp
  have call: "call_tshow ?e Routerboot_tag_show_string blob_20 (unat (8 + 4 :: u16)) 8 = (2, ''ok'')"
    by (simp add: example_env_def tshow_gives_def)
  note a = absent_or_empty_is_enoent [OF i0 tf0 absent0, of "Some (replicate 2048 0)" None 0 16]
  note b = absent_or_empty_is_enoent [OF i8 tf8 empty8, of "Some (replicate 2048 0)" None 0 16]
  from a have 1: "hc_attr_show ?e blob_20 (located_attrs ?e blob_20 ! 0)
      = \<lparr>s_ret = Ret (- ENOENT), s_text = [], s_trace = []\<rparr>" by blast
  from a have "2 < length hc_attrs
       \<and> routerboot_tag_find ?e blob_20 4 (hc_buflen blob_20 - 4) (tag_id (hc_attrs ! 2))
           = (0, 8, 8)
       \<and> (8 :: u16) \<noteq> 0 \<and> tshow (hc_attrs ! 2) = Some Routerboot_tag_show_string \<longrightarrow>
       hc_attr_show ?e blob_20 (located_attrs ?e blob_20 ! 2)
       = (case call_tshow ?e Routerboot_tag_show_string blob_20 (unat (8 + 4 :: u16)) 8 of
            (n, txt) \<Rightarrow> \<lparr>s_ret = Ret n, s_text = txt, s_trace = [Tshow (unat (8 + 4 :: u16)) 8]\<rparr>)"
    by blast
  with i1 tf1 f1 call have 2: "hc_attr_show ?e blob_20 (located_attrs ?e blob_20 ! 2)
      = \<lparr>s_ret = Ret 2, s_text = ''ok'', s_trace = [Tshow 12 8]\<rparr>" by simp
  from b id8 have 3: "hc_wlan_data_bin_read ?e' blob_20 (located_wlan_attr ?e' blob_20)
      (Some (replicate 2048 0)) None 0 16 = read_returns (Ret (- ENOENT)) [] []" by blast
  from 1 2 3 show ?thesis by blast
qed

end
